theory Spec2Isabelle
  imports Complex_Main
begin

section \<open>Domain model (package domain)\<close>

text \<open>
  Amounts are \<open>float64\<close> in the source. They are modelled as exact reals: the model
  agrees with the source wherever the source's arithmetic does not round, and it has no
  NaN and no infinities. Times (\<open>time.Time\<close>) are integers on one common time line; a
  nullable column or pointer is an \<open>option\<close>.
\<close>

type_synonym Time = int

datatype TransactionStatus = StatusAuthorized | StatusCaptured | StatusSettled | StatusFailed

datatype DiscrepancyType =
  DiscrepancyMissingSettlement | DiscrepancyAmountMismatch | DiscrepancyOrphaned

datatype Severity = SeverityLow | SeverityMedium | SeverityHigh | SeverityCritical

record Transaction =
  txn_ID :: string
  txn_ProcessorReference :: string
  txn_Processor :: string
  txn_Currency :: string
  txn_USDAmount :: real
  txn_Status :: TransactionStatus
  txn_CreatedAt :: Time
  txn_CapturedAt :: "Time option"
  txn_SettledAt :: "Time option"

record SettlementReport =
  rpt_ID :: string
  rpt_Processor :: string
  rpt_ReportDate :: Time
  rpt_BatchID :: string
  rpt_FileHash :: string
  rpt_RecordCount :: nat
  rpt_IngestedAt :: Time

text \<open>
  \<open>rec_WakalaTransactionID\<close> is the nullable column \<open>wakala_transaction_id\<close>:
  \<open>None\<close> is SQL NULL, an unmatched record.
\<close>

record SettlementRecord =
  rec_ID :: string
  rec_ReportID :: string
  rec_Processor :: string
  rec_ProcessorTransactionID :: string
  rec_WakalaTransactionID :: "string option"
  rec_GrossAmount :: real
  rec_FeeAmount :: real
  rec_NetAmount :: real
  rec_Currency :: string
  rec_USDGrossAmount :: real
  rec_USDNetAmount :: real
  rec_SettlementDate :: Time
  rec_BatchID :: string

text \<open>
  The \<open>Description\<close> field of a discrepancy is a formatted message (\<open>%.2f\<close> of
  floats); it is left out of the model, no other field depends on it.
\<close>

record Discrepancy =
  disc_ID :: string
  disc_Type :: DiscrepancyType
  disc_TransactionID :: string
  disc_SettlementID :: string
  disc_Processor :: string
  disc_ExpectedUSD :: real
  disc_ActualUSD :: real
  disc_DifferenceUSD :: real
  disc_Currency :: string
  disc_Severity :: Severity
  disc_DetectedAt :: Time

section \<open>Errors\<close>

text \<open>
  Every error return of the source is a value of \<open>error\<close>. \<open>dbcall\<close> names the
  database calls of the repositories, with the arguments that identify a row.
  \<open>Wrap msg e\<close> is \<open>fmt.Errorf("msg: %w", e)\<close>.
\<close>

datatype dbcall =
  CallClearAll | CallBulkInsert
  | CallGetUnmatchedRecords | CallGetMatchedRecords
  | CallGetByProcessorRef string string | CallGetByID string
  | CallUpdateWakalaTransactionID string string | CallUpdateStatusToSettled string
  | CallGetCapturedWithoutSettlement
  | CallReportExistsByHash | CallInsertReport | CallInsertRecords

datatype error =
  UnsupportedCurrency string
  | UnsupportedFormat string
  | ErrNoRows
  | StoreError dbcall
  | ErrFieldCount
  | ErrSyntax
  | ErrEOF
  | ErrHeaderColumns nat
  | ErrNumber string
  | ErrDate string
  | Wrap string error

section \<open>Currency normalizer (package currency)\<close>

definition ratesPerUSD :: "string \<rightharpoonup> real" where
  "ratesPerUSD = map_of
     [(''USD'', 1.0), (''KES'', 129.5), (''NGN'', 1580.0), (''ZAR'', 18.6)]"

definition ToUSD :: "real \<Rightarrow> string \<Rightarrow> error + real" where
  "ToUSD amount currency =
     (case ratesPerUSD currency of
        None \<Rightarrow> Inl (UnsupportedCurrency currency)
      | Some rate \<Rightarrow> Inr (amount / rate))"

definition FromUSD :: "real \<Rightarrow> string \<Rightarrow> error + real" where
  "FromUSD usdAmount currency =
     (case ratesPerUSD currency of
        None \<Rightarrow> Inl (UnsupportedCurrency currency)
      | Some rate \<Rightarrow> Inr (usdAmount * rate))"

section \<open>Severity helpers (reconciliation/service.go)\<close>

definition severityByAmount :: "real \<Rightarrow> Severity" where
  "severityByAmount usdAmount =
     (if usdAmount > 500 then SeverityHigh
      else if usdAmount > 100 then SeverityMedium
      else SeverityLow)"

definition mismatchSeverity :: "real \<Rightarrow> real \<Rightarrow> Severity" where
  "mismatchSeverity pctDiff absDiff =
     (if absDiff > 500 then SeverityCritical
      else if pctDiff > 0.02 then SeverityHigh
      else SeverityMedium)"


section \<open>The store (package repository)\<close>

text \<open>
  The SQLite database is a record of its four tables, each a list of rows in insertion
  order. \<open>recon_runs\<close> is not a table: it counts the calls of
  \<open>RunFullReconciliation\<close>, so that a theorem can say that a call did or did not
  trigger a run.

  A database call can fail. Which calls fail is a parameter \<open>F\<close> of every operation:
  \<open>F c\<close> holds when call \<open>c\<close> returns an error. A failed call leaves the tables as
  they are (every bulk write runs in one SQL transaction that is rolled back).
\<close>

record DB =
  transactions :: "Transaction list"
  settlement_reports :: "SettlementReport list"
  settlement_records :: "SettlementRecord list"
  discrepancies :: "Discrepancy list"
  recon_runs :: nat

type_synonym faults = "dbcall \<Rightarrow> bool"

text \<open>
  \<open>INSERT OR IGNORE\<close>, row by row: a row whose primary key is already in the table
  (or was inserted earlier in the same batch) is skipped; the count is the sum of
  \<open>RowsAffected\<close>.
\<close>

fun insertOrIgnore :: "('a \<Rightarrow> string) \<Rightarrow> 'a list \<Rightarrow> 'a list \<Rightarrow> nat \<times> 'a list" where
  "insertOrIgnore key tbl [] = (0, tbl)"
| "insertOrIgnore key tbl (x # xs) =
     (if key x \<in> set (map key tbl) then insertOrIgnore key tbl xs
      else (case insertOrIgnore key (tbl @ [x]) xs of (n, tbl') \<Rightarrow> (Suc n, tbl')))"

definition ClearAll :: "faults \<Rightarrow> DB \<Rightarrow> (error + unit) \<times> DB" where
  "ClearAll F db =
     (if F CallClearAll then (Inl (StoreError CallClearAll), db)
      else (Inr (), db\<lparr>discrepancies := []\<rparr>))"

definition BulkInsert :: "faults \<Rightarrow> Discrepancy list \<Rightarrow> DB \<Rightarrow> (error + nat) \<times> DB" where
  "BulkInsert F discs db =
     (if F CallBulkInsert then (Inl (StoreError CallBulkInsert), db)
      else (case insertOrIgnore disc_ID (discrepancies db) discs of
              (n, tbl) \<Rightarrow> (Inr n, db\<lparr>discrepancies := tbl\<rparr>)))"

definition ReportExistsByHash :: "faults \<Rightarrow> DB \<Rightarrow> string \<Rightarrow> error + bool" where
  "ReportExistsByHash F db hash =
     (if F CallReportExistsByHash then Inl (StoreError CallReportExistsByHash)
      else Inr (0 < length (filter (\<lambda>r. rpt_FileHash r = hash) (settlement_reports db))))"

text \<open>
  A plain \<open>INSERT\<close>: it fails on a duplicate primary key \<open>id\<close> and on a duplicate
  \<open>file_hash\<close> (declared \<open>UNIQUE\<close>).
\<close>

definition InsertReport :: "faults \<Rightarrow> SettlementReport \<Rightarrow> DB \<Rightarrow> (error + unit) \<times> DB" where
  "InsertReport F rpt db =
     (if F CallInsertReport
         \<or> rpt_ID rpt \<in> set (map rpt_ID (settlement_reports db))
         \<or> rpt_FileHash rpt \<in> set (map rpt_FileHash (settlement_reports db))
      then (Inl (StoreError CallInsertReport), db)
      else (Inr (), db\<lparr>settlement_reports := settlement_reports db @ [rpt]\<rparr>))"

text \<open>
  \<open>InsertRecords\<close> writes \<open>wakala_transaction_id\<close> as NULL when the Go field is
  empty (the model's \<open>None\<close>). The foreign key \<open>report_id\<close> holds at its only call
  site, where \<open>InsertReport\<close> has just stored that id.
\<close>

definition InsertRecords :: "faults \<Rightarrow> SettlementRecord list \<Rightarrow> DB \<Rightarrow> (error + nat) \<times> DB" where
  "InsertRecords F records db =
     (if F CallInsertRecords then (Inl (StoreError CallInsertRecords), db)
      else (case insertOrIgnore rec_ID (settlement_records db) records of
              (n, tbl) \<Rightarrow> (Inr n, db\<lparr>settlement_records := tbl\<rparr>)))"

definition GetUnmatchedRecords :: "faults \<Rightarrow> DB \<Rightarrow> error + SettlementRecord list" where
  "GetUnmatchedRecords F db =
     (if F CallGetUnmatchedRecords then Inl (StoreError CallGetUnmatchedRecords)
      else Inr (filter (\<lambda>r. rec_WakalaTransactionID r = None) (settlement_records db)))"

definition GetMatchedRecords :: "faults \<Rightarrow> DB \<Rightarrow> error + SettlementRecord list" where
  "GetMatchedRecords F db =
     (if F CallGetMatchedRecords then Inl (StoreError CallGetMatchedRecords)
      else Inr (filter (\<lambda>r. rec_WakalaTransactionID r \<noteq> None) (settlement_records db)))"

definition UpdateWakalaTransactionID ::
  "faults \<Rightarrow> string \<Rightarrow> string \<Rightarrow> DB \<Rightarrow> (error + unit) \<times> DB" where
  "UpdateWakalaTransactionID F recordID txnID db =
     (if F (CallUpdateWakalaTransactionID recordID txnID)
      then (Inl (StoreError (CallUpdateWakalaTransactionID recordID txnID)), db)
      else (Inr (), db\<lparr>settlement_records :=
              map (\<lambda>r. if rec_ID r = recordID
                        then r\<lparr>rec_WakalaTransactionID := Some txnID\<rparr> else r)
                  (settlement_records db)\<rparr>))"

text \<open>\<open>QueryRow(...).Scan\<close>: the first matching row, \<open>sql.ErrNoRows\<close> when there is none.\<close>

definition GetByID :: "faults \<Rightarrow> DB \<Rightarrow> string \<Rightarrow> error + Transaction" where
  "GetByID F db ident =
     (if F (CallGetByID ident) then Inl (StoreError (CallGetByID ident))
      else (case find (\<lambda>t. txn_ID t = ident) (transactions db) of
              None \<Rightarrow> Inl ErrNoRows | Some t \<Rightarrow> Inr t))"

definition GetByProcessorRef :: "faults \<Rightarrow> DB \<Rightarrow> string \<Rightarrow> string \<Rightarrow> error + Transaction" where
  "GetByProcessorRef F db processor ref =
     (if F (CallGetByProcessorRef processor ref)
      then Inl (StoreError (CallGetByProcessorRef processor ref))
      else (case find (\<lambda>t. txn_Processor t = processor \<and> txn_ProcessorReference t = ref)
                      (transactions db) of
              None \<Rightarrow> Inl ErrNoRows | Some t \<Rightarrow> Inr t))"

definition UpdateStatusToSettled ::
  "faults \<Rightarrow> string \<Rightarrow> Time \<Rightarrow> DB \<Rightarrow> (error + unit) \<times> DB" where
  "UpdateStatusToSettled F ident settledAt db =
     (if F (CallUpdateStatusToSettled ident)
      then (Inl (StoreError (CallUpdateStatusToSettled ident)), db)
      else (Inr (), db\<lparr>transactions :=
              map (\<lambda>t. if txn_ID t = ident
                        then t\<lparr>txn_Status := StatusSettled, txn_SettledAt := Some settledAt\<rparr>
                        else t)
                  (transactions db)\<rparr>))"

text \<open>
  The query joins each transaction with the settlement records linked to it and keeps
  the captured ones, captured before the cutoff, that have no such record, ordered by
  \<open>created_at\<close>.
\<close>

definition GetCapturedWithoutSettlement :: "faults \<Rightarrow> DB \<Rightarrow> Time \<Rightarrow> error + Transaction list" where
  "GetCapturedWithoutSettlement F db cutoff =
     (if F CallGetCapturedWithoutSettlement
      then Inl (StoreError CallGetCapturedWithoutSettlement)
      else Inr (sort_key txn_CreatedAt
             (filter (\<lambda>t. txn_Status t = StatusCaptured
                          \<and> (case txn_CapturedAt t of None \<Rightarrow> False | Some c \<Rightarrow> c < cutoff)
                          \<and> filter (\<lambda>sr. rec_WakalaTransactionID sr = Some (txn_ID t))
                                    (settlement_records db) = [])
                     (transactions db))))"

section \<open>Reconciliation (reconciliation/service.go)\<close>

text \<open>
  Log output is not modelled, and with it \<open>calculateConfidence\<close>, whose result is only
  logged. \<open>now\<close> is the reading of \<open>time.Now()\<close>; times are in nanoseconds.
\<close>

record ReconciliationResult =
  MatchedCount :: int
  MissingSettlements :: int
  AmountMismatches :: int
  OrphanedSettlements :: int
  TotalDiscrepancies :: int

text \<open>The loop of \<open>MatchSettlements\<close> over the unmatched records read at its start.\<close>

fun matchLoop :: "faults \<Rightarrow> SettlementRecord list \<Rightarrow> int \<Rightarrow> DB \<Rightarrow> int \<times> DB" where
  "matchLoop F [] matched db = (matched, db)"
| "matchLoop F (r # rest) matched db =
     (case GetByProcessorRef F db (rec_Processor r) (rec_ProcessorTransactionID r) of
        Inl e \<Rightarrow> matchLoop F rest matched db
      | Inr txn \<Rightarrow>
          (case UpdateWakalaTransactionID F (rec_ID r) (txn_ID txn) db of
             (Inl e, db1) \<Rightarrow> matchLoop F rest matched db1
           | (Inr u, db1) \<Rightarrow>
               matchLoop F rest (matched + 1)
                 (snd (UpdateStatusToSettled F (txn_ID txn) (rec_SettlementDate r) db1))))"

definition MatchSettlements :: "faults \<Rightarrow> DB \<Rightarrow> (error + int) \<times> DB" where
  "MatchSettlements F db =
     (case GetUnmatchedRecords F db of
        Inl e \<Rightarrow> (Inl (Wrap ''get unmatched'' e), db)
      | Inr unmatched \<Rightarrow> (case matchLoop F unmatched 0 db of (matched, db') \<Rightarrow> (Inr matched, db')))"

text \<open>
  \<open>window\<close> is the value of \<open>SETTLEMENT_WINDOW_HOURS\<close> when it is set to a decimal
  integer, \<open>None\<close> otherwise.
\<close>

definition settlementWindowHours :: "int option \<Rightarrow> int" where
  "settlementWindowHours window =
     (case window of
        Some h \<Rightarrow> (if h > 0 then h * 3600000000000 else 48 * 3600000000000)
      | None \<Rightarrow> 48 * 3600000000000)"

text \<open>The discrepancy built in the loop body of \<open>DetectMissingSettlements\<close>.\<close>

definition missingDiscrepancy :: "Time \<Rightarrow> Transaction \<Rightarrow> Discrepancy" where
  "missingDiscrepancy now txn =
     \<lparr>disc_ID = ''DISC-MS-'' @ txn_ID txn,
      disc_Type = DiscrepancyMissingSettlement,
      disc_TransactionID = txn_ID txn,
      disc_SettlementID = [],
      disc_Processor = txn_Processor txn,
      disc_ExpectedUSD = txn_USDAmount txn,
      disc_ActualUSD = 0,
      disc_DifferenceUSD = txn_USDAmount txn,
      disc_Currency = txn_Currency txn,
      disc_Severity = severityByAmount (txn_USDAmount txn),
      disc_DetectedAt = now\<rparr>"

definition DetectMissingSettlements ::
  "faults \<Rightarrow> int option \<Rightarrow> Time \<Rightarrow> DB \<Rightarrow> (error + int) \<times> DB" where
  "DetectMissingSettlements F window now db =
     (case GetCapturedWithoutSettlement F db (now - settlementWindowHours window) of
        Inl e \<Rightarrow> (Inl (Wrap ''query'' e), db)
      | Inr txns \<Rightarrow>
          (let discs = map (missingDiscrepancy now) txns in
           if length discs > 0 then
             (case BulkInsert F discs db of
                (Inl e, db') \<Rightarrow> (Inl (Wrap ''insert discrepancies'' e), db')
              | (Inr n, db') \<Rightarrow> (Inr (int n), db'))
           else (Inr 0, db)))"

text \<open>
  The Go value of a scanned record holds the empty string for a NULL
  \<open>wakala_transaction_id\<close>.
\<close>

definition wakalaID :: "SettlementRecord \<Rightarrow> string" where
  "wakalaID r = (case rec_WakalaTransactionID r of None \<Rightarrow> [] | Some s \<Rightarrow> s)"

text \<open>
  The loop body of \<open>DetectAmountMismatches\<close> once the linked transaction is read:
  \<open>None\<close> is \<open>continue\<close>. When \<open>USDAmount\<close> is 0 the float division yields
  \<open>+Inf\<close> (the difference is at least 0.10 there), which is above 0.02; HOL's
  \<open>x / 0 = 0\<close> would not be, so that case is written out.
\<close>

definition amountMismatch :: "Time \<Rightarrow> Transaction \<Rightarrow> SettlementRecord \<Rightarrow> Discrepancy option" where
  "amountMismatch now txn r =
     (let diff = rec_USDGrossAmount r - txn_USDAmount txn;
          absDiff = \<bar>diff\<bar>
      in if txn_USDAmount txn > 0 \<and> absDiff / txn_USDAmount txn \<le> 0.005 then None
         else if absDiff < 0.10 then None
         else Some
           \<lparr>disc_ID = ''DISC-AM-'' @ rec_ID r,
            disc_Type = DiscrepancyAmountMismatch,
            disc_TransactionID = txn_ID txn,
            disc_SettlementID = rec_ID r,
            disc_Processor = rec_Processor r,
            disc_ExpectedUSD = txn_USDAmount txn,
            disc_ActualUSD = rec_USDGrossAmount r,
            disc_DifferenceUSD = diff,
            disc_Currency = rec_Currency r,
            disc_Severity =
              (if txn_USDAmount txn = 0
               then (if absDiff > 500 then SeverityCritical else SeverityHigh)
               else mismatchSeverity (absDiff / txn_USDAmount txn) absDiff),
            disc_DetectedAt = now\<rparr>)"

fun mismatchLoop :: "faults \<Rightarrow> Time \<Rightarrow> DB \<Rightarrow> SettlementRecord list \<Rightarrow> Discrepancy list" where
  "mismatchLoop F now db [] = []"
| "mismatchLoop F now db (r # rest) =
     (case GetByID F db (wakalaID r) of
        Inl e \<Rightarrow> mismatchLoop F now db rest
      | Inr txn \<Rightarrow>
          (case amountMismatch now txn r of
             None \<Rightarrow> mismatchLoop F now db rest
           | Some d \<Rightarrow> d # mismatchLoop F now db rest))"

definition DetectAmountMismatches :: "faults \<Rightarrow> Time \<Rightarrow> DB \<Rightarrow> (error + int) \<times> DB" where
  "DetectAmountMismatches F now db =
     (case GetMatchedRecords F db of
        Inl e \<Rightarrow> (Inl (Wrap ''get matched'' e), db)
      | Inr matched \<Rightarrow>
          (let discs = mismatchLoop F now db matched in
           if length discs > 0 then
             (case BulkInsert F discs db of
                (Inl e, db') \<Rightarrow> (Inl (Wrap ''insert discrepancies'' e), db')
              | (Inr n, db') \<Rightarrow> (Inr (int n), db'))
           else (Inr 0, db)))"

text \<open>The discrepancy built in the loop body of \<open>DetectOrphanedSettlements\<close>.\<close>

definition orphanedDiscrepancy :: "Time \<Rightarrow> SettlementRecord \<Rightarrow> Discrepancy" where
  "orphanedDiscrepancy now r =
     \<lparr>disc_ID = ''DISC-OS-'' @ rec_ID r,
      disc_Type = DiscrepancyOrphaned,
      disc_TransactionID = [],
      disc_SettlementID = rec_ID r,
      disc_Processor = rec_Processor r,
      disc_ExpectedUSD = 0,
      disc_ActualUSD = rec_USDNetAmount r,
      disc_DifferenceUSD = rec_USDNetAmount r,
      disc_Currency = rec_Currency r,
      disc_Severity = SeverityHigh,
      disc_DetectedAt = now\<rparr>"

definition DetectOrphanedSettlements :: "faults \<Rightarrow> Time \<Rightarrow> DB \<Rightarrow> (error + int) \<times> DB" where
  "DetectOrphanedSettlements F now db =
     (case GetUnmatchedRecords F db of
        Inl e \<Rightarrow> (Inl (Wrap ''get unmatched'' e), db)
      | Inr unmatched \<Rightarrow>
          (let discs = map (orphanedDiscrepancy now) unmatched in
           if length discs > 0 then
             (case BulkInsert F discs db of
                (Inl e, db') \<Rightarrow> (Inl (Wrap ''insert discrepancies'' e), db')
              | (Inr n, db') \<Rightarrow> (Inr (int n), db'))
           else (Inr 0, db)))"

text \<open>
  The run is not one transaction: when a step fails, the writes of the steps before it
  stay, so the database is returned with the error too.
\<close>

definition RunFullReconciliation ::
  "faults \<Rightarrow> int option \<Rightarrow> Time \<Rightarrow> DB \<Rightarrow> (error + ReconciliationResult) \<times> DB" where
  "RunFullReconciliation F window now db =
     (case ClearAll F (db\<lparr>recon_runs := Suc (recon_runs db)\<rparr>) of
        (Inl e, db1) \<Rightarrow> (Inl (Wrap ''clear discrepancies'' e), db1)
      | (Inr u, db1) \<Rightarrow>
     (case MatchSettlements F db1 of
        (Inl e, db2) \<Rightarrow> (Inl (Wrap ''match settlements'' e), db2)
      | (Inr matched, db2) \<Rightarrow>
     (case DetectMissingSettlements F window now db2 of
        (Inl e, db3) \<Rightarrow> (Inl (Wrap ''detect missing'' e), db3)
      | (Inr missing, db3) \<Rightarrow>
     (case DetectAmountMismatches F now db3 of
        (Inl e, db4) \<Rightarrow> (Inl (Wrap ''detect mismatches'' e), db4)
      | (Inr mismatches, db4) \<Rightarrow>
     (case DetectOrphanedSettlements F now db4 of
        (Inl e, db5) \<Rightarrow> (Inl (Wrap ''detect orphaned'' e), db5)
      | (Inr orphaned, db5) \<Rightarrow>
          (Inr \<lparr>MatchedCount = matched,
                MissingSettlements = missing,
                AmountMismatches = mismatches,
                OrphanedSettlements = orphaned,
                TotalDiscrepancies = missing + mismatches + orphaned\<rparr>, db5))))))"

section \<open>Library functions used by ingestion\<close>

text \<open>
  The parsers and \<open>IngestReport\<close> call the Go standard library. Those functions are
  parameters of the model, collected in one record; a theorem stated for every \<open>L\<close>
  holds for the library's own functions. Bytes (\<open>[]byte\<close>) are a \<open>string\<close>.
  \<^item> \<open>sha256hex\<close>: \<open>fmt.Sprintf("%x", sha256.Sum256(data))\<close>;
  \<^item> \<open>csvRecords comma data\<close>: the records that a \<open>csv.Reader\<close> with this
    \<open>Comma\<close> and \<open>TrimLeadingSpace\<close> finds in \<open>data\<close>, in order, before any check
    of the number of fields; \<open>None\<close> is a record with a syntax error (a quote out of
    place);
  \<^item> \<open>TrimSpace\<close>: \<open>strings.TrimSpace\<close>;
  \<^item> \<open>ParseFloat\<close>: \<open>strconv.ParseFloat(s, 64)\<close>, \<open>None\<close> when it returns an error;
  \<^item> \<open>timeParse layout s\<close>: \<open>time.Parse\<close>, \<open>None\<close> when it returns an error;
  \<^item> \<open>jsonUnmarshal\<close>: \<open>json.Unmarshal\<close> into a \<open>nairaGatewayFile\<close>.
\<close>

record nairaGatewayEntry =
  ng_Ref :: string
  ng_MerchantID :: string
  ng_AmountNGN :: real
  ng_ProcessingFee :: real
  ng_PayoutNGN :: real
  ng_SettledAt :: string

record nairaGatewayFile =
  ng_BatchID :: string
  ng_SettlementDate :: string
  ng_Records :: "nairaGatewayEntry list"

record golib =
  sha256hex :: "string \<Rightarrow> string"
  csvRecords :: "char \<Rightarrow> string \<Rightarrow> string list option list"
  TrimSpace :: "string \<Rightarrow> string"
  ParseFloat :: "string \<Rightarrow> real option"
  timeParse :: "string \<Rightarrow> string \<Rightarrow> Time option"
  jsonUnmarshal :: "string \<Rightarrow> nairaGatewayFile option"

text \<open>\<open>fmt.Sprintf("%d", n)\<close> for a Go \<open>int\<close>.\<close>

definition digitChar :: "int \<Rightarrow> char" where
  "digitChar d =
     (if d = 0 then CHR ''0'' else if d = 1 then CHR ''1'' else if d = 2 then CHR ''2''
      else if d = 3 then CHR ''3'' else if d = 4 then CHR ''4'' else if d = 5 then CHR ''5''
      else if d = 6 then CHR ''6'' else if d = 7 then CHR ''7'' else if d = 8 then CHR ''8''
      else CHR ''9'')"

function intDigits :: "int \<Rightarrow> string" where
  "intDigits n =
     (if n < 10 then [digitChar n]
      else intDigits (n div 10) @ [digitChar (n mod 10)])"
  by pat_completeness auto
termination
  by (relation "measure nat") auto

declare intDigits.simps [simp del]

definition itoa :: "int \<Rightarrow> string" where
  "itoa i = (if i < 0 then CHR ''-'' # intDigits (- i) else intDigits i)"

text \<open>
  \<open>reader.Read()\<close> on the next record of the input. \<open>FieldsPerRecord\<close> is never set
  by the parsers, so it starts at 0: the first \<open>Read\<close> (the header) sets it to the
  number of fields of that record, and every later \<open>Read\<close> returns
  \<open>ErrFieldCount\<close> for a record with another number of fields. \<open>fpr\<close> is the value
  of \<open>FieldsPerRecord\<close> at the call.
\<close>

definition csvRead :: "nat \<Rightarrow> string list option \<Rightarrow> error + string list" where
  "csvRead fpr raw =
     (case raw of
        None \<Rightarrow> Inl ErrSyntax
      | Some row \<Rightarrow> (if fpr > 0 \<and> length row \<noteq> fpr then Inl ErrFieldCount else Inr row))"

section \<open>CSV parsers (ingestion/parser\_csv\_a.go, parser\_csv\_c.go)\<close>

text \<open>
  \<open>ParseAfriPayCSV\<close> and \<open>ParseCapePayCSV\<close> are the same code up to six constants:
  the delimiter, the prefix of the record id, the processor, the currency and the names
  of the first two amount columns in error messages.
\<close>

record csvLayout =
  lay_Comma :: char
  lay_IDPrefix :: string
  lay_Processor :: string
  lay_Currency :: string
  lay_GrossLabel :: string
  lay_FeeLabel :: string

definition AfriPay :: csvLayout where
  "AfriPay = \<lparr>lay_Comma = CHR '','', lay_IDPrefix = ''SR-AP-'', lay_Processor = ''afripay'',
              lay_Currency = ''KES'', lay_GrossLabel = ''gross'', lay_FeeLabel = ''fee''\<rparr>"

definition CapePay :: csvLayout where
  "CapePay = \<lparr>lay_Comma = CHR ''|'', lay_IDPrefix = ''SR-CP-'', lay_Processor = ''capepay'',
              lay_Currency = ''ZAR'', lay_GrossLabel = ''amount'', lay_FeeLabel = ''deductions''\<rparr>"

definition RFC3339 :: string where
  "RFC3339 = ''2006-01-02T15:04:05Z07:00''"

text \<open>The date of a CSV row: the primary layout, then the fallback.\<close>

definition csvDate :: "golib \<Rightarrow> string \<Rightarrow> Time option" where
  "csvDate L s =
     (case timeParse L ''2006-01-02'' s of
        Some t \<Rightarrow> Some t
      | None \<Rightarrow> timeParse L RFC3339 s)"

text \<open>
  The loop body for a row of at least 7 fields, from the first \<open>TrimSpace\<close> to the
  record; an error is the parser's return \<open>nil, "", err\<close>.
\<close>

definition csvRecord ::
  "golib \<Rightarrow> csvLayout \<Rightarrow> string \<Rightarrow> int \<Rightarrow> string list \<Rightarrow> error + SettlementRecord" where
  "csvRecord L lay reportID lineNum row =
     (let txnID = TrimSpace L (row ! 0);
          settleDateStr = TrimSpace L (row ! 2);
          grossStr = TrimSpace L (row ! 3);
          feeStr = TrimSpace L (row ! 4);
          netStr = TrimSpace L (row ! 5);
          batchID = TrimSpace L (row ! 6);
          line = ''line '' @ itoa lineNum
      in case ParseFloat L grossStr of
           None \<Rightarrow> Inl (Wrap (line @ '' '' @ lay_GrossLabel lay) (ErrNumber grossStr))
         | Some gross \<Rightarrow>
        (case ParseFloat L feeStr of
           None \<Rightarrow> Inl (Wrap (line @ '' '' @ lay_FeeLabel lay) (ErrNumber feeStr))
         | Some fee \<Rightarrow>
        (case ParseFloat L netStr of
           None \<Rightarrow> Inl (Wrap (line @ '' net'') (ErrNumber netStr))
         | Some net \<Rightarrow>
        (case csvDate L settleDateStr of
           None \<Rightarrow> Inl (Wrap (line @ '' date'') (ErrDate settleDateStr))
         | Some settleDate \<Rightarrow>
        (case ToUSD gross (lay_Currency lay) of
           Inl e \<Rightarrow> Inl (Wrap (line @ '' currency gross'') e)
         | Inr usdGross \<Rightarrow>
        (case ToUSD net (lay_Currency lay) of
           Inl e \<Rightarrow> Inl (Wrap (line @ '' currency net'') e)
         | Inr usdNet \<Rightarrow>
             Inr \<lparr>rec_ID = lay_IDPrefix lay @ txnID @ ''-'' @ itoa lineNum,
                  rec_ReportID = reportID,
                  rec_Processor = lay_Processor lay,
                  rec_ProcessorTransactionID = txnID,
                  rec_WakalaTransactionID = None,
                  rec_GrossAmount = gross,
                  rec_FeeAmount = fee,
                  rec_NetAmount = net,
                  rec_Currency = lay_Currency lay,
                  rec_USDGrossAmount = usdGross,
                  rec_USDNetAmount = usdNet,
                  rec_SettlementDate = settleDate,
                  rec_BatchID = batchID\<rparr>))))))"

text \<open>
  The row loop. \<open>raws\<close> are the records not yet read, \<open>fpr\<close> the reader's
  \<open>FieldsPerRecord\<close>, \<open>lineNum\<close> the counter before its increment. The end of
  \<open>raws\<close> is \<open>io.EOF\<close>.
\<close>

fun csvRows ::
  "golib \<Rightarrow> csvLayout \<Rightarrow> string \<Rightarrow> nat \<Rightarrow> int \<Rightarrow> string list option list
     \<Rightarrow> SettlementRecord list \<Rightarrow> string \<Rightarrow> error + SettlementRecord list \<times> string" where
  "csvRows L lay reportID fpr lineNum [] records batchID = Inr (records, batchID)"
| "csvRows L lay reportID fpr lineNum (raw # rest) records batchID =
     (case csvRead fpr raw of
        Inl e \<Rightarrow> Inl (Wrap (''line '' @ itoa (lineNum + 1)) e)
      | Inr row \<Rightarrow>
          (if length row < 7 then csvRows L lay reportID fpr (lineNum + 1) rest records batchID
           else (case csvRecord L lay reportID (lineNum + 1) row of
                   Inl e \<Rightarrow> Inl e
                 | Inr r \<Rightarrow>
                     csvRows L lay reportID fpr (lineNum + 1) rest (records @ [r])
                       (TrimSpace L (row ! 6)))))"

definition parseCSV ::
  "golib \<Rightarrow> csvLayout \<Rightarrow> string \<Rightarrow> string \<Rightarrow> error + SettlementRecord list \<times> string" where
  "parseCSV L lay data reportID =
     (case csvRecords L (lay_Comma lay) data of
        [] \<Rightarrow> Inl (Wrap ''read header'' ErrEOF)
      | raw # rest \<Rightarrow>
          (case csvRead 0 raw of
             Inl e \<Rightarrow> Inl (Wrap ''read header'' e)
           | Inr header \<Rightarrow>
               (if length header < 7 then Inl (ErrHeaderColumns (length header))
                else csvRows L lay reportID (length header) 1 rest [] [])))"

definition ParseAfriPayCSV ::
  "golib \<Rightarrow> string \<Rightarrow> string \<Rightarrow> error + SettlementRecord list \<times> string" where
  "ParseAfriPayCSV L data reportID = parseCSV L AfriPay data reportID"

definition ParseCapePayCSV ::
  "golib \<Rightarrow> string \<Rightarrow> string \<Rightarrow> error + SettlementRecord list \<times> string" where
  "ParseCapePayCSV L data reportID = parseCSV L CapePay data reportID"

section \<open>JSON parser (ParseNairaGatewayJSON)\<close>

definition ngDate :: "golib \<Rightarrow> string \<Rightarrow> Time option" where
  "ngDate L s =
     (case timeParse L RFC3339 s of
        Some t \<Rightarrow> Some t
      | None \<Rightarrow> timeParse L ''2006-01-02T15:04:05-07:00'' s)"

fun ngRows ::
  "golib \<Rightarrow> string \<Rightarrow> string \<Rightarrow> int \<Rightarrow> nairaGatewayEntry list \<Rightarrow> SettlementRecord list
     \<Rightarrow> error + SettlementRecord list" where
  "ngRows L reportID batch i [] records = Inr records"
| "ngRows L reportID batch i (entry # rest) records =
     (case ngDate L (ng_SettledAt entry) of
        None \<Rightarrow> Inl (Wrap (''record '' @ itoa i @ '' date'') (ErrDate (ng_SettledAt entry)))
      | Some settledAt \<Rightarrow>
     (case ToUSD (ng_AmountNGN entry) ''NGN'' of
        Inl e \<Rightarrow> Inl (Wrap (''record '' @ itoa i @ '' currency gross'') e)
      | Inr usdGross \<Rightarrow>
     (case ToUSD (ng_PayoutNGN entry) ''NGN'' of
        Inl e \<Rightarrow> Inl (Wrap (''record '' @ itoa i @ '' currency net'') e)
      | Inr usdNet \<Rightarrow>
          ngRows L reportID batch (i + 1) rest
            (records @
             [\<lparr>rec_ID = ''SR-NG-'' @ ng_Ref entry @ ''-'' @ itoa i,
               rec_ReportID = reportID,
               rec_Processor = ''nairagateway'',
               rec_ProcessorTransactionID = ng_Ref entry,
               rec_WakalaTransactionID = None,
               rec_GrossAmount = ng_AmountNGN entry,
               rec_FeeAmount = ng_ProcessingFee entry,
               rec_NetAmount = ng_PayoutNGN entry,
               rec_Currency = ''NGN'',
               rec_USDGrossAmount = usdGross,
               rec_USDNetAmount = usdNet,
               rec_SettlementDate = settledAt,
               rec_BatchID = batch\<rparr>]))))"

definition ParseNairaGatewayJSON ::
  "golib \<Rightarrow> string \<Rightarrow> string \<Rightarrow> error + SettlementRecord list \<times> string" where
  "ParseNairaGatewayJSON L data reportID =
     (case jsonUnmarshal L data of
        None \<Rightarrow> Inl (Wrap ''unmarshal'' ErrSyntax)
      | Some file \<Rightarrow>
          (case ngRows L reportID (ng_BatchID file) 0 (ng_Records file) [] of
             Inl e \<Rightarrow> Inl e
           | Inr records \<Rightarrow> Inr (records, ng_BatchID file)))"

section \<open>Ingestion (IngestReport)\<close>

record IngestResult =
  ReportID :: string
  RecordsIngested :: int
  DuplicatesSkipped :: int
  DiscrepanciesDetected :: int

text \<open>
  The \<open>switch\<close> on the format tag: \<open>None\<close> is its \<open>default\<close> branch, which returns
  before any parser runs.
\<close>

definition dispatch ::
  "golib \<Rightarrow> string \<Rightarrow> string \<Rightarrow> string
     \<Rightarrow> (error + SettlementRecord list \<times> string) option" where
  "dispatch L format data reportID =
     (if format = ''csv_a'' then Some (ParseAfriPayCSV L data reportID)
      else if format = ''json_b'' then Some (ParseNairaGatewayJSON L data reportID)
      else if format = ''csv_c'' then Some (ParseCapePayCSV L data reportID)
      else None)"

text \<open>
  \<open>IngestReport\<close>. \<open>L\<close> is the library, \<open>F\<close> the failing database calls,
  \<open>window\<close> the configured settlement window, \<open>now\<close> the clock (one reading stands
  for the readings of \<open>time.Now()\<close> within the call).
\<close>

definition IngestReport ::
  "golib \<Rightarrow> faults \<Rightarrow> int option \<Rightarrow> Time \<Rightarrow> string \<Rightarrow> string \<Rightarrow> string \<Rightarrow> DB
     \<Rightarrow> (error + IngestResult) \<times> DB" where
  "IngestReport L F window now data processor format db =
     (let hash = sha256hex L data in
      case ReportExistsByHash F db hash of
        Inl e \<Rightarrow> (Inl (Wrap ''check hash'' e), db)
      | Inr exists \<Rightarrow>
          if exists then
            (Inr \<lparr>ReportID = ''already-ingested'', RecordsIngested = 0,
                  DuplicatesSkipped = 0, DiscrepanciesDetected = 0\<rparr>, db)
          else
            (let reportID = ''RPT-'' @ processor @ ''-'' @ itoa now in
             case dispatch L format data reportID of
               None \<Rightarrow> (Inl (UnsupportedFormat format), db)
             | Some (Inl e) \<Rightarrow> (Inl (Wrap (''parse '' @ format) e), db)
             | Some (Inr (records, parsedBatch)) \<Rightarrow>
                 (let batchID = (if parsedBatch = [] then ''BATCH-'' @ itoa now else parsedBatch);
                      report = \<lparr>rpt_ID = reportID, rpt_Processor = processor,
                                rpt_ReportDate = now, rpt_BatchID = batchID,
                                rpt_FileHash = hash, rpt_RecordCount = length records,
                                rpt_IngestedAt = now\<rparr>
                  in case InsertReport F report db of
                       (Inl e, db1) \<Rightarrow> (Inl (Wrap ''insert report'' e), db1)
                     | (Inr u, db1) \<Rightarrow>
                    (case InsertRecords F records db1 of
                       (Inl e, db2) \<Rightarrow> (Inl (Wrap ''insert records'' e), db2)
                     | (Inr inserted, db2) \<Rightarrow>
                    (case RunFullReconciliation F window now db2 of
                       (reconResult, db3) \<Rightarrow>
                         (Inr \<lparr>ReportID = reportID,
                               RecordsIngested = int inserted,
                               DuplicatesSkipped = int (length records) - int inserted,
                               DiscrepanciesDetected =
                                 (case reconResult of
                                    Inl e \<Rightarrow> 0
                                  | Inr res \<Rightarrow> TotalDiscrepancies res)\<rparr>, db3))))))"

section \<open>A plain instance of the library\<close>

text \<open>
  For runs on concrete files the library is instantiated on a fragment where its result
  is plain to read off:
  \<^item> \<open>plainRecords\<close>: the records of a CSV input of ASCII bytes with no double quote
    and no carriage return: the lines between line feeds, empty lines skipped, each
    split at the delimiter, leading white space of each field dropped;
  \<^item> \<open>plainTrim\<close>: \<open>TrimSpace\<close> on ASCII strings;
  \<^item> \<open>plainFloat\<close>: \<open>ParseFloat\<close> on decimal literals (a sign, digits, a fraction);
    any other string counts as unparseable here;
  \<^item> \<open>plainTime\<close>: \<open>time.Parse\<close> knowing the one date \<open>2024-01-15\<close> (midnight UTC);
  \<^item> the digest is the content itself, and no input decodes as JSON.
  These definitions are used at concrete inputs of that fragment only.
\<close>

fun splitOn :: "char \<Rightarrow> string \<Rightarrow> string list" where
  "splitOn sep [] = [[]]"
| "splitOn sep (c # cs) =
     (if c = sep then [] # splitOn sep cs
      else (case splitOn sep cs of [] \<Rightarrow> [[c]] | f # fs \<Rightarrow> (c # f) # fs))"

definition isSpace :: "char \<Rightarrow> bool" where
  "isSpace c = (c \<in> set [CHR 0x09, CHR 0x0A, CHR 0x0B, CHR 0x0C, CHR 0x0D, CHR '' ''])"

definition plainRecords :: "char \<Rightarrow> string \<Rightarrow> string list option list" where
  "plainRecords comma data =
     map (\<lambda>line. Some (map (dropWhile isSpace) (splitOn comma line)))
         (filter (\<lambda>line. line \<noteq> []) (splitOn CHR 0x0A data))"

definition plainTrim :: "string \<Rightarrow> string" where
  "plainTrim s = rev (dropWhile isSpace (rev (dropWhile isSpace s)))"

fun decimalValue :: "int \<Rightarrow> string \<Rightarrow> int option" where
  "decimalValue acc [] = Some acc"
| "decimalValue acc (c # cs) =
     (if c \<in> set ''0123456789'' then decimalValue (10 * acc + (of_char c - 48)) cs
      else None)"

definition plainFloat :: "string \<Rightarrow> real option" where
  "plainFloat s =
     (let neg = (take 1 s = ''-'');
          body = (if take 1 s = ''-'' \<or> take 1 s = ''+'' then drop 1 s else s);
          ip = takeWhile (\<lambda>c. c \<noteq> CHR ''.'') body;
          fp = drop 1 (dropWhile (\<lambda>c. c \<noteq> CHR ''.'') body)
      in if ip = [] \<and> fp = [] then None
         else (case (decimalValue 0 ip, decimalValue 0 fp) of
                 (Some a, Some b) \<Rightarrow>
                   Some ((if neg then - 1 else 1) * (of_int a + of_int b / 10 ^ length fp))
               | _ \<Rightarrow> None))"

definition plainTime :: "string \<Rightarrow> string \<Rightarrow> Time option" where
  "plainTime layout s =
     (if layout = ''2006-01-02'' \<and> s = ''2024-01-15'' then Some 1705276800000000000
      else None)"

definition plainLib :: golib where
  "plainLib = \<lparr>sha256hex = (\<lambda>data. data), csvRecords = plainRecords, TrimSpace = plainTrim,
                ParseFloat = plainFloat, timeParse = plainTime,
                jsonUnmarshal = (\<lambda>data. None)\<rparr>"

section \<open>Example data\<close>

text \<open>
  A small database: a captured transaction \<open>WKL-1\<close> of 353.72 USD with the processor
  reference \<open>AP-TXN-001\<close>, a captured transaction \<open>WKL-2\<close> of 500.01 USD that no
  report settles, and nothing else. \<open>exampleCSV\<close> is an AfriPay file of two rows: the
  settlement of \<open>AP-TXN-001\<close> with gross 47671.03 KES, and a row for the unknown
  reference \<open>FAKE-AP-001\<close>. \<open>exampleNow\<close> is 2024-01-18, midnight UTC.
\<close>

definition exampleNow :: Time where
  "exampleNow = 1705536000000000000"

definition exampleTxn1 :: Transaction where
  "exampleTxn1 = \<lparr>txn_ID = ''WKL-1'', txn_ProcessorReference = ''AP-TXN-001'',
       txn_Processor = ''afripay'', txn_Currency = ''KES'', txn_USDAmount = 353.72,
       txn_Status = StatusCaptured, txn_CreatedAt = 1704700000000000000,
       txn_CapturedAt = Some 1704700000000000000, txn_SettledAt = None\<rparr>"

definition exampleTxn2 :: Transaction where
  "exampleTxn2 = \<lparr>txn_ID = ''WKL-2'', txn_ProcessorReference = ''AP-TXN-002'',
       txn_Processor = ''afripay'', txn_Currency = ''KES'', txn_USDAmount = 500.01,
       txn_Status = StatusCaptured, txn_CreatedAt = 1704800000000000000,
       txn_CapturedAt = Some 1704800000000000000, txn_SettledAt = None\<rparr>"

definition exampleDB :: DB where
  "exampleDB = \<lparr>transactions = [exampleTxn1, exampleTxn2], settlement_reports = [],
       settlement_records = [], discrepancies = [], recon_runs = 0\<rparr>"

definition exampleCSV :: string where
  "exampleCSV =
     ''transaction_id,merchant_ref,settlement_date,gross_amount_kes,fee_kes,net_kes,batch_id''
     @ [CHR 0x0A] @ ''AP-TXN-001,M001,2024-01-15,47671.03,715.07,46955.96,BATCH-AP-1''
     @ [CHR 0x0A] @ ''FAKE-AP-001,M002,2024-01-15,12950.00,194.25,12755.75,BATCH-AP-1''
     @ [CHR 0x0A]"

definition noFaults :: faults where
  "noFaults = (\<lambda>c. False)"

text \<open>The database after \<open>exampleCSV\<close> is ingested into \<open>exampleDB\<close>.\<close>

definition exampleIngested :: DB where
  "exampleIngested =
     snd (IngestReport plainLib noFaults None exampleNow exampleCSV ''afripay'' ''csv_a'' exampleDB)"

text \<open>
  \<open>exampleTxn3\<close> is a captured, unsettled transaction of exactly 100.00 USD, alone in
  \<open>exampleDB100\<close>. \<open>exampleTxnBig\<close> is a transaction of 10000 USD and
  \<open>exampleRecBig\<close> the settlement record matched to it, with a gross of 10500 USD: an
  absolute difference of exactly 500.00 USD, 5 percent of the expected amount.
\<close>

definition exampleTxn3 :: Transaction where
  "exampleTxn3 = \<lparr>txn_ID = ''WKL-3'', txn_ProcessorReference = ''AP-TXN-003'',
       txn_Processor = ''afripay'', txn_Currency = ''KES'', txn_USDAmount = 100.00,
       txn_Status = StatusCaptured, txn_CreatedAt = 1704800000000000000,
       txn_CapturedAt = Some 1704800000000000000, txn_SettledAt = None\<rparr>"

definition exampleDB100 :: DB where
  "exampleDB100 = \<lparr>transactions = [exampleTxn3], settlement_reports = [],
       settlement_records = [], discrepancies = [], recon_runs = 0\<rparr>"

definition exampleTxnBig :: Transaction where
  "exampleTxnBig = \<lparr>txn_ID = ''WKL-9'', txn_ProcessorReference = ''AP-TXN-009'',
       txn_Processor = ''afripay'', txn_Currency = ''KES'', txn_USDAmount = 10000,
       txn_Status = StatusSettled, txn_CreatedAt = 1704800000000000000,
       txn_CapturedAt = Some 1704800000000000000,
       txn_SettledAt = Some 1705276800000000000\<rparr>"

definition exampleRecBig :: SettlementRecord where
  "exampleRecBig = \<lparr>rec_ID = ''SR-AP-AP-TXN-009-2'', rec_ReportID = ''RPT-1'',
       rec_Processor = ''afripay'', rec_ProcessorTransactionID = ''AP-TXN-009'',
       rec_WakalaTransactionID = Some ''WKL-9'', rec_GrossAmount = 1359750,
       rec_FeeAmount = 20396.25, rec_NetAmount = 1339353.75, rec_Currency = ''KES'',
       rec_USDGrossAmount = 10500, rec_USDNetAmount = 10342.5,
       rec_SettlementDate = 1705276800000000000, rec_BatchID = ''BATCH-AP-1''\<rparr>"

definition exampleDBBig :: DB where
  "exampleDBBig = \<lparr>transactions = [exampleTxnBig], settlement_reports = [],
       settlement_records = [exampleRecBig], discrepancies = [], recon_runs = 0\<rparr>"

text \<open>
  \<open>exampleReconciled\<close> is \<open>exampleIngested\<close> after one more full run. Its first
  settlement record is the matched one of \<open>AP-TXN-001\<close>, its second the unmatched one
  of \<open>FAKE-AP-001\<close>.
\<close>

definition exampleReconciled :: DB where
  "exampleReconciled = snd (RunFullReconciliation noFaults None exampleNow exampleIngested)"

definition exampleRecMatched :: SettlementRecord where
  "exampleRecMatched = settlement_records exampleReconciled ! 0"

definition exampleRecOrphan :: SettlementRecord where
  "exampleRecOrphan = settlement_records exampleReconciled ! 1"

text \<open>
  For ingestion: \<open>failClear\<close> makes the \<open>ClearAll\<close> call fail and no other;
  \<open>exampleReportID\<close>, \<open>exampleParsed\<close> and \<open>exampleReport\<close> are the report id, the
  parsed records and the report row of \<open>exampleCSV\<close> ingested at \<open>exampleNow\<close>, and
  \<open>exampleStored\<close> the database once both are stored.
\<close>

definition failClear :: faults where
  "failClear = (\<lambda>c. c = CallClearAll)"

definition exampleReportID :: string where
  "exampleReportID = ''RPT-'' @ ''afripay'' @ ''-'' @ itoa exampleNow"

definition exampleParsed :: "SettlementRecord list" where
  "exampleParsed = fst (projr (ParseAfriPayCSV plainLib exampleCSV exampleReportID))"

definition exampleReport :: SettlementReport where
  "exampleReport = \<lparr>rpt_ID = exampleReportID, rpt_Processor = ''afripay'',
       rpt_ReportDate = exampleNow, rpt_BatchID = ''BATCH-AP-1'',
       rpt_FileHash = sha256hex plainLib exampleCSV, rpt_RecordCount = 2,
       rpt_IngestedAt = exampleNow\<rparr>"

definition exampleStored :: DB where
  "exampleStored = exampleDB\<lparr>settlement_reports := [exampleReport],
                               settlement_records := exampleParsed\<rparr>"

text \<open>
  Two files with a short row: a valid header of 7 columns, a data row of 2 fields, then
  a complete data row; comma-separated for AfriPay, pipe-separated for CapePay.
\<close>

definition shortRowCSV :: string where
  "shortRowCSV =
     ''transaction_id,merchant_ref,settlement_date,gross_amount_kes,fee_kes,net_kes,batch_id''
     @ [CHR 0x0A] @ ''AP-TXN-001,M001''
     @ [CHR 0x0A] @ ''AP-TXN-002,M002,2024-01-15,12950.00,194.25,12755.75,BATCH-AP-1''
     @ [CHR 0x0A]"

definition shortRowPSV :: string where
  "shortRowPSV =
     ''TXREF|MERCHANT|SETTLE_DATE|AMOUNT_ZAR|DEDUCTIONS_ZAR|NET_ZAR|BATCH''
     @ [CHR 0x0A] @ ''CP-TXN-001|M001''
     @ [CHR 0x0A] @ ''CP-TXN-002|M002|2024-01-15|1860.00|27.90|1832.10|BATCH-CP-1''
     @ [CHR 0x0A]"

section \<open>Facts about the store\<close>

lemma insertOrIgnore_length:
  "insertOrIgnore key tbl xs = (n, tbl') \<Longrightarrow> length tbl' = length tbl + n"
  by (induction xs arbitrary: tbl n tbl') (auto split: if_splits prod.splits)

lemma insertOrIgnore_subset:
  "insertOrIgnore key tbl xs = (n, tbl') \<Longrightarrow> set tbl' \<subseteq> set tbl \<union> set xs"
proof (induction xs arbitrary: tbl n tbl')
  case Nil
  then show ?case by simp
next
  case (Cons a xs)
  show ?case
  proof (cases "key a \<in> set (map key tbl)")
    case True
    with Cons.prems have "insertOrIgnore key tbl xs = (n, tbl')" by simp
    from Cons.IH[OF this] show ?thesis by auto
  next
    case False
    with Cons.prems obtain m where "insertOrIgnore key (tbl @ [a]) xs = (m, tbl')"
      by (auto split: prod.splits)
    from Cons.IH[OF this] show ?thesis by auto
  qed
qed

lemma insertOrIgnore_fresh:
  "distinct (map key xs) \<Longrightarrow> key ` set xs \<inter> key ` set tbl = {} \<Longrightarrow>
     insertOrIgnore key tbl xs = (length xs, tbl @ xs)"
proof (induction xs arbitrary: tbl)
  case Nil
  then show ?case by simp
next
  case (Cons a xs)
  from Cons.prems have a: "key a \<notin> key ` set tbl" by auto
  from Cons.prems have "distinct (map key xs)"
    and "key ` set xs \<inter> key ` set (tbl @ [a]) = {}" by auto
  from Cons.IH[OF this] a show ?case by simp
qed

lemma BulkInsert_length:
  "BulkInsert F discs db = (Inr n, db') \<Longrightarrow>
     length (discrepancies db') = length (discrepancies db) + n"
  by (auto simp: BulkInsert_def split: if_splits prod.splits dest: insertOrIgnore_length)

lemma BulkInsert_subset:
  "BulkInsert F discs db = (Inr n, db') \<Longrightarrow>
     set (discrepancies db') \<subseteq> set (discrepancies db) \<union> set discs"
proof -
  assume a: "BulkInsert F discs db = (Inr n, db')"
  then obtain tbl where i: "insertOrIgnore disc_ID (discrepancies db) discs = (n, tbl)"
    and d: "discrepancies db' = tbl"
    by (auto simp: BulkInsert_def split: if_splits prod.splits)
  from insertOrIgnore_subset[OF i] d show ?thesis by simp
qed

lemma BulkInsert_others:
  "BulkInsert F discs db = (r, db') \<Longrightarrow>
     transactions db' = transactions db \<and> settlement_reports db' = settlement_reports db
     \<and> settlement_records db' = settlement_records db \<and> recon_runs db' = recon_runs db"
  by (auto simp: BulkInsert_def split: if_splits prod.splits)

lemma DetectMissing_length:
  "DetectMissingSettlements F w now db = (Inr n, db') \<Longrightarrow>
     int (length (discrepancies db')) = int (length (discrepancies db)) + n"
  by (auto simp: DetectMissingSettlements_def Let_def
           split: if_splits sum.splits prod.splits dest: BulkInsert_length)

lemma DetectMismatch_length:
  "DetectAmountMismatches F now db = (Inr n, db') \<Longrightarrow>
     int (length (discrepancies db')) = int (length (discrepancies db)) + n"
  by (auto simp: DetectAmountMismatches_def Let_def
           split: if_splits sum.splits prod.splits dest: BulkInsert_length)

lemma DetectOrphaned_length:
  "DetectOrphanedSettlements F now db = (Inr n, db') \<Longrightarrow>
     int (length (discrepancies db')) = int (length (discrepancies db)) + n"
  by (auto simp: DetectOrphanedSettlements_def Let_def
           split: if_splits sum.splits prod.splits dest: BulkInsert_length)

lemma matchLoop_discrepancies:
  "matchLoop F rs m db = (m', db') \<Longrightarrow>
     discrepancies db' = discrepancies db \<and> settlement_reports db' = settlement_reports db"
proof (induction rs arbitrary: m db)
  case Nil
  then show ?case by simp
next
  case (Cons r rs)
  then show ?case
    by (auto simp: UpdateWakalaTransactionID_def UpdateStatusToSettled_def
             split: sum.splits prod.splits if_splits)
qed

lemma MatchSettlements_discrepancies:
  "MatchSettlements F db = (res, db') \<Longrightarrow>
     discrepancies db' = discrepancies db \<and> settlement_reports db' = settlement_reports db"
  by (auto simp: MatchSettlements_def split: sum.splits prod.splits
           dest: matchLoop_discrepancies)

section \<open>Severity of missing settlements\<close>

text \<open>
  Every discrepancy that \<open>DetectMissingSettlements\<close> adds to the table is the one built
  for a transaction of the database, of type MISSING\_SETTLEMENT, with the severity
  \<open>severityByAmount\<close> gives that transaction's USD amount.
\<close>

lemma DetectMissing_severity:
  assumes "DetectMissingSettlements F window now db = (Inr n, db')"
    and "d \<in> set (discrepancies db')"
    and "d \<notin> set (discrepancies db)"
  shows "\<exists>txn \<in> set (transactions db).
            d = missingDiscrepancy now txn
            \<and> disc_Type d = DiscrepancyMissingSettlement
            \<and> disc_Severity d = severityByAmount (txn_USDAmount txn)"
proof -
  from assms(1) obtain txns where
    q: "GetCapturedWithoutSettlement F db (now - settlementWindowHours window) = Inr txns"
    by (auto simp: DetectMissingSettlements_def split: sum.splits)
  then have sub: "set txns \<subseteq> set (transactions db)"
    by (auto simp: GetCapturedWithoutSettlement_def split: if_splits)
  from assms(1) q have "set (discrepancies db')
      \<subseteq> set (discrepancies db) \<union> set (map (missingDiscrepancy now) txns)"
    by (auto simp: DetectMissingSettlements_def Let_def
             split: if_splits prod.splits sum.splits dest!: BulkInsert_subset)
  with assms(2,3) have "d \<in> set (map (missingDiscrepancy now) txns)" by auto
  then obtain txn where "txn \<in> set txns" and "d = missingDiscrepancy now txn" by auto
  with sub show ?thesis
    by (auto simp: missingDiscrepancy_def)
qed

lemma severityByAmount_boundaries:
  "severityByAmount 500.01 = SeverityHigh \<and> severityByAmount 500.00 = SeverityMedium
   \<and> severityByAmount 100.01 = SeverityMedium \<and> severityByAmount 99.99 = SeverityLow"
  by (simp add: severityByAmount_def)

text \<open>
  C3. The claim gives MEDIUM for a missing settlement of exactly 100.00 USD. On the
  database that holds only such a transaction, captured and overdue,
  \<open>DetectMissingSettlements\<close> stores one discrepancy for it, with
  \<open>expected_usd = 100\<close> and severity LOW: \<open>severityByAmount\<close> tests
  \<open>usdAmount > 100\<close>.
\<close>

theorem missing_severity_at_100:
  "DetectMissingSettlements noFaults None exampleNow exampleDB100
     = (Inr 1, exampleDB100\<lparr>discrepancies := [missingDiscrepancy exampleNow exampleTxn3]\<rparr>)
   \<and> disc_Type (missingDiscrepancy exampleNow exampleTxn3) = DiscrepancyMissingSettlement
   \<and> disc_ExpectedUSD (missingDiscrepancy exampleNow exampleTxn3) = 100.00
   \<and> disc_Severity (missingDiscrepancy exampleNow exampleTxn3) = SeverityLow
   \<and> severityByAmount 100.00 = SeverityLow"
  by code_simp

section \<open>Severity of amount mismatches\<close>




section \<open>Currency conversion\<close>

text \<open>
  C9. \<open>ToUSD\<close> divides and \<open>FromUSD\<close> multiplies by the fixed rate of the currency:
  1.0 for USD, 129.5 for KES, 1580.0 for NGN, 18.6 for ZAR; for every other code both
  return the unsupported-currency error, and for no other code do they fail.
\<close>

theorem currency_conversion:
  "ToUSD a c =
     (if c = ''USD'' then Inr (a / 1.0) else if c = ''KES'' then Inr (a / 129.5)
      else if c = ''NGN'' then Inr (a / 1580.0) else if c = ''ZAR'' then Inr (a / 18.6)
      else Inl (UnsupportedCurrency c))
   \<and> FromUSD a c =
     (if c = ''USD'' then Inr (a * 1.0) else if c = ''KES'' then Inr (a * 129.5)
      else if c = ''NGN'' then Inr (a * 1580.0) else if c = ''ZAR'' then Inr (a * 18.6)
      else Inl (UnsupportedCurrency c))
   \<and> (\<exists>e. ToUSD a c = Inl e) = (c \<notin> set [''USD'', ''KES'', ''NGN'', ''ZAR''])
   \<and> (\<exists>e. FromUSD a c = Inl e) = (c \<notin> set [''USD'', ''KES'', ''NGN'', ''ZAR''])"
  by (simp add: ToUSD_def FromUSD_def ratesPerUSD_def)

section \<open>Conservation of the counts\<close>

text \<open>
  C5. When a full reconciliation run succeeds, the counts of the three detectors add up
  to the total it returns, and that total is the number of rows of the discrepancy
  table after the run.
\<close>

theorem run_conservation:
  assumes "RunFullReconciliation F window now db = (Inr res, db')"
  shows "MissingSettlements res + AmountMismatches res + OrphanedSettlements res
           = TotalDiscrepancies res
         \<and> TotalDiscrepancies res = int (length (discrepancies db'))"
proof -
  from assms obtain u db1 matched db2 missing db3 mismatches db4 orphaned where
    s1: "ClearAll F (db\<lparr>recon_runs := Suc (recon_runs db)\<rparr>) = (Inr u, db1)" and
    s2: "MatchSettlements F db1 = (Inr matched, db2)" and
    s3: "DetectMissingSettlements F window now db2 = (Inr missing, db3)" and
    s4: "DetectAmountMismatches F now db3 = (Inr mismatches, db4)" and
    s5: "DetectOrphanedSettlements F now db4 = (Inr orphaned, db')" and
    r: "res = \<lparr>MatchedCount = matched, MissingSettlements = missing,
               AmountMismatches = mismatches, OrphanedSettlements = orphaned,
               TotalDiscrepancies = missing + mismatches + orphaned\<rparr>"
    unfolding RunFullReconciliation_def
    by (auto split: sum.splits prod.splits)
  from s1 have "discrepancies db1 = []"
    by (auto simp: ClearAll_def split: if_splits)
  with MatchSettlements_discrepancies[OF s2] have "discrepancies db2 = []" by simp
  with DetectMissing_length[OF s3] DetectMismatch_length[OF s4] DetectOrphaned_length[OF s5] r
  show ?thesis by simp
qed

theorem run_conservation_witness:
  "fst (RunFullReconciliation noFaults None exampleNow exampleIngested)
     = Inr \<lparr>MatchedCount = 0, MissingSettlements = 1, AmountMismatches = 1,
            OrphanedSettlements = 1, TotalDiscrepancies = 3\<rparr>
   \<and> length (discrepancies
        (snd (RunFullReconciliation noFaults None exampleNow exampleIngested))) = 3"
proof -
  let ?run = "RunFullReconciliation noFaults None exampleNow exampleIngested"
  have h1: "?run = (Inr \<lparr>MatchedCount = 0, MissingSettlements = 1, AmountMismatches = 1,
            OrphanedSettlements = 1, TotalDiscrepancies = 3\<rparr>, snd ?run)"
    by code_simp
  have "fst ?run = fst (Inr \<lparr>MatchedCount = 0, MissingSettlements = 1, AmountMismatches = 1,
            OrphanedSettlements = 1, TotalDiscrepancies = 3\<rparr>, snd ?run)"
    using h1 by (rule arg_cong)
  then have f: "fst ?run = Inr \<lparr>MatchedCount = 0, MissingSettlements = 1,
            AmountMismatches = 1, OrphanedSettlements = 1, TotalDiscrepancies = 3\<rparr>"
    by (simp only: fst_conv)
  from run_conservation[OF h1] have "int (length (discrepancies (snd ?run))) = 3" by simp
  then have l: "length (discrepancies (snd ?run)) = 3" by linarith
  from f l show ?thesis by (rule conjI)
qed

section \<open>Frames and exact inserts\<close>

lemma filter_same_key:
  "distinct (map f xs) \<Longrightarrow> x \<in> set xs \<Longrightarrow> filter (\<lambda>y. f y = f x) xs = [x]"
proof (induction xs)
  case Nil
  then show ?case by simp
next
  case (Cons a xs)
  show ?case
  proof (cases "a = x")
    case True
    with Cons.prems have "f x \<notin> f ` set xs" by simp
    then have "\<forall>y \<in> set xs. f y \<noteq> f x" by (metis imageI)
    then have "filter (\<lambda>y. f y = f x) xs = []" by (simp add: filter_empty_conv)
    with True show ?thesis by simp
  next
    case False
    with Cons.prems have "x \<in> set xs" and "distinct (map f xs)" and "f a \<noteq> f x"
      by auto
    with Cons.IH show ?thesis by simp
  qed
qed

lemma BulkInsert_fresh:
  assumes "BulkInsert F discs db = (Inr n, db')"
    and "distinct (map disc_ID discs)"
    and "disc_ID ` set discs \<inter> disc_ID ` set (discrepancies db) = {}"
  shows "n = length discs \<and> discrepancies db' = discrepancies db @ discs"
proof -
  from assms(1) obtain tbl where i: "insertOrIgnore disc_ID (discrepancies db) discs = (n, tbl)"
    and d: "discrepancies db' = tbl"
    by (auto simp: BulkInsert_def split: if_splits prod.splits)
  from insertOrIgnore_fresh[OF assms(2,3)] i d show ?thesis by simp
qed

lemma DetectOrphaned_exact:
  assumes run: "DetectOrphanedSettlements F now db = (Inr n, db')"
    and pk: "distinct (map rec_ID (settlement_records db))"
    and fresh: "\<forall>d \<in> set (discrepancies db). take 8 (disc_ID d) \<noteq> ''DISC-OS-''"
  shows "n = int (length (filter (\<lambda>r. rec_WakalaTransactionID r = None) (settlement_records db)))
         \<and> discrepancies db' = discrepancies db
              @ map (orphanedDiscrepancy now)
                  (filter (\<lambda>r. rec_WakalaTransactionID r = None) (settlement_records db))
         \<and> settlement_records db' = settlement_records db
         \<and> transactions db' = transactions db"
proof -
  let ?un = "filter (\<lambda>r. rec_WakalaTransactionID r = None) (settlement_records db)"
  let ?discs = "map (orphanedDiscrepancy now) ?un"
  from run have g: "GetUnmatchedRecords F db = Inr ?un"
    by (auto simp: DetectOrphanedSettlements_def GetUnmatchedRecords_def
             split: sum.splits if_splits)
  show ?thesis
  proof (cases "?un = []")
    case True
    with run g show ?thesis by (simp add: DetectOrphanedSettlements_def)
  next
    case False
    with run g obtain m where b: "BulkInsert F ?discs db = (Inr m, db')" and nm: "n = int m"
      by (auto simp: DetectOrphanedSettlements_def Let_def split: prod.splits sum.splits)
    from pk have "distinct (map rec_ID ?un)" by (rule distinct_map_filter)
    then have "distinct (map (\<lambda>r. ''DISC-OS-'' @ rec_ID r) ?un)"
      by (simp add: distinct_map inj_on_def)
    then have dis: "distinct (map disc_ID ?discs)"
      by (simp add: orphanedDiscrepancy_def comp_def)
    have "\<forall>d \<in> set ?discs. take 8 (disc_ID d) = ''DISC-OS-''"
      by (auto simp: orphanedDiscrepancy_def)
    with fresh have dj: "disc_ID ` set ?discs \<inter> disc_ID ` set (discrepancies db) = {}"
      by force
    from BulkInsert_fresh[OF b dis dj] BulkInsert_others[OF b] nm show ?thesis by simp
  qed
qed

lemma DetectOrphaned_per_record:
  assumes run: "DetectOrphanedSettlements F now db = (Inr n, db')"
    and pk: "distinct (map rec_ID (settlement_records db))"
    and fresh: "\<forall>d \<in> set (discrepancies db).
                  take 8 (disc_ID d) \<noteq> ''DISC-OS-'' \<and> disc_Type d \<noteq> DiscrepancyOrphaned"
    and r: "r \<in> set (settlement_records db)"
  shows "filter (\<lambda>d. disc_Type d = DiscrepancyOrphaned \<and> disc_SettlementID d = rec_ID r)
           (discrepancies db')
         = (if rec_WakalaTransactionID r = None then [orphanedDiscrepancy now r] else [])"
proof -
  let ?P = "\<lambda>d. disc_Type d = DiscrepancyOrphaned \<and> disc_SettlementID d = rec_ID r"
  let ?un = "filter (\<lambda>r. rec_WakalaTransactionID r = None) (settlement_records db)"
  from fresh have f: "\<forall>d \<in> set (discrepancies db). take 8 (disc_ID d) \<noteq> ''DISC-OS-''" by blast
  from DetectOrphaned_exact[OF run pk f]
  have e: "discrepancies db' = discrepancies db @ map (orphanedDiscrepancy now) ?un" by simp
  from fresh have old: "filter ?P (discrepancies db) = []"
    by (auto simp: filter_empty_conv)
  have new: "filter ?P (map (orphanedDiscrepancy now) ?un)
      = map (orphanedDiscrepancy now) (filter (\<lambda>y. rec_ID y = rec_ID r) ?un)"
    by (simp add: filter_map comp_def orphanedDiscrepancy_def)
  have sel: "filter (\<lambda>y. rec_ID y = rec_ID r) ?un
      = (if rec_WakalaTransactionID r = None then [r] else [])"
  proof -
    have "filter (\<lambda>y. rec_ID y = rec_ID r) ?un
        = filter (\<lambda>r. rec_WakalaTransactionID r = None)
            (filter (\<lambda>y. rec_ID y = rec_ID r) (settlement_records db))"
      by (simp add: conj_commute)
    also have "\<dots> = filter (\<lambda>r. rec_WakalaTransactionID r = None) [r]"
      using filter_same_key[OF pk r] by simp
    finally show ?thesis by simp
  qed
  from e old new sel show ?thesis by simp
qed

lemma amountMismatch_Some:
  "amountMismatch now txn r = Some d \<Longrightarrow>
     disc_ID d = ''DISC-AM-'' @ rec_ID r \<and> disc_Type d = DiscrepancyAmountMismatch
     \<and> disc_SettlementID d = rec_ID r \<and> disc_TransactionID d = txn_ID txn
     \<and> disc_ExpectedUSD d = txn_USDAmount txn \<and> disc_ActualUSD d = rec_USDGrossAmount r
     \<and> disc_DifferenceUSD d = rec_USDGrossAmount r - txn_USDAmount txn"
  by (auto simp: amountMismatch_def Let_def split: if_splits)



lemma mismatchLoop_ids:
  "d \<in> set (mismatchLoop F now db rs) \<Longrightarrow>
     disc_Type d = DiscrepancyAmountMismatch \<and> take 8 (disc_ID d) = ''DISC-AM-''
     \<and> (\<exists>r \<in> set rs. disc_ID d = ''DISC-AM-'' @ rec_ID r)"
proof (induction rs)
  case Nil
  then show ?case by simp
next
  case (Cons r rs)
  then show ?case
    by (auto split: sum.splits option.splits dest: amountMismatch_Some)
qed

lemma mismatchLoop_distinct:
  "distinct (map rec_ID rs) \<Longrightarrow> distinct (map disc_ID (mismatchLoop F now db rs))"
proof (induction rs)
  case Nil
  then show ?case by simp
next
  case (Cons r rs)
  have "\<And>d. d \<in> set (mismatchLoop F now db rs) \<Longrightarrow> disc_ID d \<noteq> ''DISC-AM-'' @ rec_ID r"
  proof
    fix d
    assume "d \<in> set (mismatchLoop F now db rs)" and e: "disc_ID d = ''DISC-AM-'' @ rec_ID r"
    from mismatchLoop_ids[OF this(1)] obtain r' where "r' \<in> set rs"
      and "disc_ID d = ''DISC-AM-'' @ rec_ID r'" by blast
    with e have "rec_ID r' = rec_ID r" by simp
    with \<open>r' \<in> set rs\<close> have "rec_ID r \<in> rec_ID ` set rs" by (metis imageI)
    with Cons.prems show False by simp
  qed
  with Cons show ?case
    by (auto split: sum.splits option.splits dest!: amountMismatch_Some)
qed

lemma DetectMismatch_exact:
  assumes run: "DetectAmountMismatches F now db = (Inr n, db')"
    and pk: "distinct (map rec_ID (settlement_records db))"
    and fresh: "\<forall>d \<in> set (discrepancies db). take 8 (disc_ID d) \<noteq> ''DISC-AM-''"
  shows "discrepancies db' = discrepancies db
              @ mismatchLoop F now db
                  (filter (\<lambda>r. rec_WakalaTransactionID r \<noteq> None) (settlement_records db))
         \<and> n = int (length (mismatchLoop F now db
                  (filter (\<lambda>r. rec_WakalaTransactionID r \<noteq> None) (settlement_records db))))
         \<and> settlement_records db' = settlement_records db
         \<and> transactions db' = transactions db"
proof -
  let ?ms = "filter (\<lambda>r. rec_WakalaTransactionID r \<noteq> None) (settlement_records db)"
  let ?discs = "mismatchLoop F now db ?ms"
  from run have g: "GetMatchedRecords F db = Inr ?ms"
    by (auto simp: DetectAmountMismatches_def GetMatchedRecords_def
             split: sum.splits if_splits)
  show ?thesis
  proof (cases "?discs = []")
    case True
    with run g show ?thesis by (simp add: DetectAmountMismatches_def)
  next
    case False
    with run g obtain m where b: "BulkInsert F ?discs db = (Inr m, db')" and nm: "n = int m"
      by (auto simp: DetectAmountMismatches_def Let_def split: prod.splits sum.splits)
    from pk have "distinct (map rec_ID ?ms)" by (rule distinct_map_filter)
    then have dis: "distinct (map disc_ID ?discs)" by (rule mismatchLoop_distinct)
    have "\<forall>d \<in> set ?discs. take 8 (disc_ID d) = ''DISC-AM-''"
      using mismatchLoop_ids by blast
    with fresh have dj: "disc_ID ` set ?discs \<inter> disc_ID ` set (discrepancies db) = {}"
      by force
    from BulkInsert_fresh[OF b dis dj] BulkInsert_others[OF b] nm show ?thesis by simp
  qed
qed


section \<open>The steps of a successful run\<close>

lemma matchLoop_rec_ids:
  "matchLoop F rs m db = (m', db') \<Longrightarrow>
     map rec_ID (settlement_records db') = map rec_ID (settlement_records db)"
proof (induction rs arbitrary: m db)
  case Nil
  then show ?case by simp
next
  case (Cons r rs)
  have u: "\<And>i t d. map rec_ID (settlement_records (snd (UpdateWakalaTransactionID F i t d)))
      = map rec_ID (settlement_records d)"
    by (simp add: UpdateWakalaTransactionID_def comp_def)
  have s: "\<And>i t d. settlement_records (snd (UpdateStatusToSettled F i t d))
      = settlement_records d"
    by (simp add: UpdateStatusToSettled_def)
  show ?case
  proof (cases "GetByProcessorRef F db (rec_Processor r) (rec_ProcessorTransactionID r)")
    case (Inl e)
    with Cons.prems have "matchLoop F rs m db = (m', db')" by simp
    from Cons.IH[OF this] show ?thesis .
  next
    case (Inr txn)
    obtain res db1 where w: "UpdateWakalaTransactionID F (rec_ID r) (txn_ID txn) db = (res, db1)"
      by (cases "UpdateWakalaTransactionID F (rec_ID r) (txn_ID txn) db")
    from u[of "rec_ID r" "txn_ID txn" db] w
    have k1: "map rec_ID (settlement_records db1) = map rec_ID (settlement_records db)" by simp
    show ?thesis
    proof (cases res)
      case (Inl e)
      with Cons.prems Inr w have "matchLoop F rs m db1 = (m', db')" by simp
      from Cons.IH[OF this] k1 show ?thesis by simp
    next
      case (Inr v)
      with Cons.prems \<open>GetByProcessorRef F db (rec_Processor r)
          (rec_ProcessorTransactionID r) = Inr txn\<close> w
      have "matchLoop F rs (m + 1)
              (snd (UpdateStatusToSettled F (txn_ID txn) (rec_SettlementDate r) db1)) = (m', db')"
        by simp
      from Cons.IH[OF this] s k1 show ?thesis by simp
    qed
  qed
qed

lemma DetectMissing_frame:
  assumes "DetectMissingSettlements F window now db = (Inr n, db')"
  shows "settlement_records db' = settlement_records db \<and> transactions db' = transactions db
         \<and> (\<forall>d \<in> set (discrepancies db'). d \<in> set (discrepancies db)
               \<or> (disc_Type d = DiscrepancyMissingSettlement
                   \<and> take 8 (disc_ID d) = ''DISC-MS-''))"
proof -
  from assms obtain txns where
    q: "GetCapturedWithoutSettlement F db (now - settlementWindowHours window) = Inr txns"
    by (auto simp: DetectMissingSettlements_def split: sum.splits)
  show ?thesis
  proof (cases "txns = []")
    case True
    with assms q show ?thesis by (simp add: DetectMissingSettlements_def)
  next
    case False
    with assms q obtain m where
      b: "BulkInsert F (map (missingDiscrepancy now) txns) db = (Inr m, db')"
      by (auto simp: DetectMissingSettlements_def Let_def split: prod.splits sum.splits)
    have "\<forall>d \<in> set (map (missingDiscrepancy now) txns).
            disc_Type d = DiscrepancyMissingSettlement \<and> take 8 (disc_ID d) = ''DISC-MS-''"
      by (auto simp: missingDiscrepancy_def)
    with BulkInsert_subset[OF b] BulkInsert_others[OF b] show ?thesis by blast
  qed
qed

text \<open>
  The states of a successful run: each step succeeds, the record ids stay as they are,
  and before the mismatch step the table holds missing-settlement rows only.
\<close>

lemma run_steps:
  assumes run: "RunFullReconciliation F window now db = (Inr res, db')"
    and pk: "distinct (map rec_ID (settlement_records db))"
  obtains db3 db4 where
    "DetectAmountMismatches F now db3 = (Inr (AmountMismatches res), db4)"
    "DetectOrphanedSettlements F now db4 = (Inr (OrphanedSettlements res), db')"
    "distinct (map rec_ID (settlement_records db3))"
    "\<forall>d \<in> set (discrepancies db3).
        disc_Type d = DiscrepancyMissingSettlement \<and> take 8 (disc_ID d) = ''DISC-MS-''"
proof -
  from run obtain u db1 matched db2 missing db3 mismatches db4 orphaned where
    s1: "ClearAll F (db\<lparr>recon_runs := Suc (recon_runs db)\<rparr>) = (Inr u, db1)" and
    s2: "MatchSettlements F db1 = (Inr matched, db2)" and
    s3: "DetectMissingSettlements F window now db2 = (Inr missing, db3)" and
    s4: "DetectAmountMismatches F now db3 = (Inr mismatches, db4)" and
    s5: "DetectOrphanedSettlements F now db4 = (Inr orphaned, db')" and
    r: "res = \<lparr>MatchedCount = matched, MissingSettlements = missing,
               AmountMismatches = mismatches, OrphanedSettlements = orphaned,
               TotalDiscrepancies = missing + mismatches + orphaned\<rparr>"
    unfolding RunFullReconciliation_def
    by (auto split: sum.splits prod.splits)
  from s1 have c: "discrepancies db1 = []" "settlement_records db1 = settlement_records db"
    by (auto simp: ClearAll_def split: if_splits)
  from s2 have "map rec_ID (settlement_records db2) = map rec_ID (settlement_records db1)"
    by (auto simp: MatchSettlements_def split: sum.splits prod.splits
             dest: matchLoop_rec_ids)
  with c pk have pk2: "distinct (map rec_ID (settlement_records db2))" by simp
  from MatchSettlements_discrepancies[OF s2] c have e2: "discrepancies db2 = []" by simp
  from DetectMissing_frame[OF s3] e2 pk2
  have pk3: "distinct (map rec_ID (settlement_records db3))"
    and m3: "\<forall>d \<in> set (discrepancies db3).
        disc_Type d = DiscrepancyMissingSettlement \<and> take 8 (disc_ID d) = ''DISC-MS-''"
    by auto
  from s4 s5 r pk3 m3 that show ?thesis by simp
qed

section \<open>Amount mismatches\<close>



section \<open>Orphaned settlements\<close>

text \<open>
  C8. After a successful full run on a database whose settlement records have distinct
  ids, the ORPHANED\_SETTLEMENT discrepancies of the table for a settlement record \<open>r\<close>
  are exactly one when \<open>r\<close> is still unmatched, and none when it is matched. That one has
  severity HIGH, \<open>expected_usd = 0\<close> and \<open>actual_usd\<close> the record's
  \<open>usd_net_amount\<close>; the count the run returns is the number of unmatched records.
\<close>

theorem orphaned_settlements:
  assumes run: "RunFullReconciliation F window now db = (Inr res, db')"
    and pk: "distinct (map rec_ID (settlement_records db))"
    and r: "r \<in> set (settlement_records db')"
  shows "filter (\<lambda>d. disc_Type d = DiscrepancyOrphaned \<and> disc_SettlementID d = rec_ID r)
           (discrepancies db')
           = (if rec_WakalaTransactionID r = None then [orphanedDiscrepancy now r] else [])
         \<and> disc_Type (orphanedDiscrepancy now r) = DiscrepancyOrphaned
         \<and> disc_SettlementID (orphanedDiscrepancy now r) = rec_ID r
         \<and> disc_Severity (orphanedDiscrepancy now r) = SeverityHigh
         \<and> disc_ExpectedUSD (orphanedDiscrepancy now r) = 0
         \<and> disc_ActualUSD (orphanedDiscrepancy now r) = rec_USDNetAmount r
         \<and> OrphanedSettlements res
             = int (length (filter (\<lambda>r. rec_WakalaTransactionID r = None)
                              (settlement_records db')))"
proof -
  from run pk obtain db3 db4 where
    s4: "DetectAmountMismatches F now db3 = (Inr (AmountMismatches res), db4)" and
    s5: "DetectOrphanedSettlements F now db4 = (Inr (OrphanedSettlements res), db')" and
    pk3: "distinct (map rec_ID (settlement_records db3))" and
    m3: "\<forall>d \<in> set (discrepancies db3).
        disc_Type d = DiscrepancyMissingSettlement \<and> take 8 (disc_ID d) = ''DISC-MS-''"
    by (rule run_steps)
  from m3 have f3: "\<forall>d \<in> set (discrepancies db3). take 8 (disc_ID d) \<noteq> ''DISC-AM-''"
    by auto
  note e4 = DetectMismatch_exact[OF s4 pk3 f3]
  from e4 pk3 have pk4: "distinct (map rec_ID (settlement_records db4))" by simp
  have g4: "\<forall>d \<in> set (discrepancies db4).
      take 8 (disc_ID d) \<noteq> ''DISC-OS-'' \<and> disc_Type d \<noteq> DiscrepancyOrphaned"
  proof
    fix d assume "d \<in> set (discrepancies db4)"
    with e4 have "d \<in> set (discrepancies db3) \<or> d \<in> set (mismatchLoop F now db3
        (filter (\<lambda>r. rec_WakalaTransactionID r \<noteq> None) (settlement_records db3)))"
      by auto
    with m3 mismatchLoop_ids
    show "take 8 (disc_ID d) \<noteq> ''DISC-OS-'' \<and> disc_Type d \<noteq> DiscrepancyOrphaned"
      by fastforce
  qed
  then have f4: "\<forall>d \<in> set (discrepancies db4). take 8 (disc_ID d) \<noteq> ''DISC-OS-''"
    by blast
  note e5 = DetectOrphaned_exact[OF s5 pk4 f4]
  from e5 r have r4: "r \<in> set (settlement_records db4)" by simp
  have a: "filter (\<lambda>d. disc_Type d = DiscrepancyOrphaned \<and> disc_SettlementID d = rec_ID r)
           (discrepancies db')
           = (if rec_WakalaTransactionID r = None then [orphanedDiscrepancy now r] else [])"
    by (rule DetectOrphaned_per_record[OF s5 pk4 g4 r4])
  have b: "disc_Type (orphanedDiscrepancy now r) = DiscrepancyOrphaned
         \<and> disc_SettlementID (orphanedDiscrepancy now r) = rec_ID r
         \<and> disc_Severity (orphanedDiscrepancy now r) = SeverityHigh
         \<and> disc_ExpectedUSD (orphanedDiscrepancy now r) = 0
         \<and> disc_ActualUSD (orphanedDiscrepancy now r) = rec_USDNetAmount r"
    by (simp add: orphanedDiscrepancy_def)
  from e5 have c: "OrphanedSettlements res
             = int (length (filter (\<lambda>r. rec_WakalaTransactionID r = None)
                              (settlement_records db')))"
    by simp
  from a b c show ?thesis by simp
qed

theorem orphaned_settlements_witness:
  "fst (RunFullReconciliation noFaults None exampleNow exampleIngested)
     = Inr \<lparr>MatchedCount = 0, MissingSettlements = 1, AmountMismatches = 1,
            OrphanedSettlements = 1, TotalDiscrepancies = 3\<rparr>
   \<and> distinct (map rec_ID (settlement_records exampleIngested))
   \<and> exampleRecOrphan \<in> set (settlement_records exampleReconciled)
   \<and> rec_WakalaTransactionID exampleRecOrphan = None
   \<and> filter (\<lambda>d. disc_Type d = DiscrepancyOrphaned
                  \<and> disc_SettlementID d = rec_ID exampleRecOrphan)
        (discrepancies exampleReconciled)
       = [orphanedDiscrepancy exampleNow exampleRecOrphan]
   \<and> exampleRecMatched \<in> set (settlement_records exampleReconciled)
   \<and> rec_WakalaTransactionID exampleRecMatched = Some ''WKL-1''
   \<and> filter (\<lambda>d. disc_Type d = DiscrepancyOrphaned
                  \<and> disc_SettlementID d = rec_ID exampleRecMatched)
        (discrepancies exampleReconciled)
       = []"
proof -
  let ?run = "RunFullReconciliation noFaults None exampleNow exampleIngested"
  have h1: "?run = (Inr \<lparr>MatchedCount = 0, MissingSettlements = 1, AmountMismatches = 1,
            OrphanedSettlements = 1, TotalDiscrepancies = 3\<rparr>, exampleReconciled)"
    by code_simp
  have h2: "distinct (map rec_ID (settlement_records exampleIngested))" by code_simp
  have h3: "exampleRecOrphan \<in> set (settlement_records exampleReconciled)" by code_simp
  have h4: "rec_WakalaTransactionID exampleRecOrphan = None" by code_simp
  have h5: "exampleRecMatched \<in> set (settlement_records exampleReconciled)" by code_simp
  have h6: "rec_WakalaTransactionID exampleRecMatched = Some ''WKL-1''" by code_simp
  have f: "fst ?run = Inr \<lparr>MatchedCount = 0, MissingSettlements = 1, AmountMismatches = 1,
            OrphanedSettlements = 1, TotalDiscrepancies = 3\<rparr>"
    by (simp only: h1 fst_conv)
  from orphaned_settlements[OF h1 h2 h3] h4
  have a: "filter (\<lambda>d. disc_Type d = DiscrepancyOrphaned
                  \<and> disc_SettlementID d = rec_ID exampleRecOrphan)
        (discrepancies exampleReconciled)
       = [orphanedDiscrepancy exampleNow exampleRecOrphan]"
    by simp
  from orphaned_settlements[OF h1 h2 h5] h6
  have b: "filter (\<lambda>d. disc_Type d = DiscrepancyOrphaned
                  \<and> disc_SettlementID d = rec_ID exampleRecMatched)
        (discrepancies exampleReconciled)
       = []"
    by simp
  from f h2 h3 h4 a h5 h6 b show ?thesis by (intro conjI)
qed

section \<open>Ingestion\<close>

lemma Detect_reports:
  "DetectMissingSettlements F window now db = (r1, d1) \<Longrightarrow>
     settlement_reports d1 = settlement_reports db"
  "DetectAmountMismatches F now db = (r2, d2) \<Longrightarrow>
     settlement_reports d2 = settlement_reports db"
  "DetectOrphanedSettlements F now db = (r3, d3) \<Longrightarrow>
     settlement_reports d3 = settlement_reports db"
  by (auto simp: DetectMissingSettlements_def DetectAmountMismatches_def
                 DetectOrphanedSettlements_def Let_def
           split: sum.splits prod.splits if_splits dest: BulkInsert_others)

lemma RunFull_reports:
  assumes "RunFullReconciliation F window now db = (r, db')"
  shows "settlement_reports db' = settlement_reports db"
proof -
  obtain r1 db1 where s1: "ClearAll F (db\<lparr>recon_runs := Suc (recon_runs db)\<rparr>) = (r1, db1)"
    by (cases "ClearAll F (db\<lparr>recon_runs := Suc (recon_runs db)\<rparr>)")
  obtain r2 db2 where s2: "MatchSettlements F db1 = (r2, db2)"
    by (cases "MatchSettlements F db1")
  obtain r3 db3 where s3: "DetectMissingSettlements F window now db2 = (r3, db3)"
    by (cases "DetectMissingSettlements F window now db2")
  obtain r4 db4 where s4: "DetectAmountMismatches F now db3 = (r4, db4)"
    by (cases "DetectAmountMismatches F now db3")
  obtain r5 db5 where s5: "DetectOrphanedSettlements F now db4 = (r5, db5)"
    by (cases "DetectOrphanedSettlements F now db4")
  from s1 have k1: "settlement_reports db1 = settlement_reports db"
    by (auto simp: ClearAll_def split: if_splits)
  note k2 = MatchSettlements_discrepancies[OF s2, THEN conjunct2]
  note k3 = Detect_reports(1)[OF s3]
  note k4 = Detect_reports(2)[OF s4]
  note k5 = Detect_reports(3)[OF s5]
  from assms s1 s2 s3 s4 s5 have "db' = db1 \<or> db' = db2 \<or> db' = db3 \<or> db' = db4 \<or> db' = db5"
    by (auto simp: RunFullReconciliation_def split: sum.splits)
  with k1 k2 k3 k4 k5 show ?thesis by auto
qed

lemma RunFull_runs:
  assumes "RunFullReconciliation F window now db = (r, db')"
  shows "recon_runs db' = Suc (recon_runs db)"
proof -
  have m: "\<And>rs m d m' d'. matchLoop F rs m d = (m', d') \<Longrightarrow> recon_runs d' = recon_runs d"
  proof -
    fix rs m d m' d'
    show "matchLoop F rs m d = (m', d') \<Longrightarrow> recon_runs d' = recon_runs d"
      by (induction rs arbitrary: m d)
         (auto simp: UpdateWakalaTransactionID_def UpdateStatusToSettled_def
               split: sum.splits prod.splits if_splits)
  qed
  obtain r1 db1 where s1: "ClearAll F (db\<lparr>recon_runs := Suc (recon_runs db)\<rparr>) = (r1, db1)"
    by (cases "ClearAll F (db\<lparr>recon_runs := Suc (recon_runs db)\<rparr>)")
  obtain r2 db2 where s2: "MatchSettlements F db1 = (r2, db2)"
    by (cases "MatchSettlements F db1")
  obtain r3 db3 where s3: "DetectMissingSettlements F window now db2 = (r3, db3)"
    by (cases "DetectMissingSettlements F window now db2")
  obtain r4 db4 where s4: "DetectAmountMismatches F now db3 = (r4, db4)"
    by (cases "DetectAmountMismatches F now db3")
  obtain r5 db5 where s5: "DetectOrphanedSettlements F now db4 = (r5, db5)"
    by (cases "DetectOrphanedSettlements F now db4")
  from s1 have k1: "recon_runs db1 = Suc (recon_runs db)"
    by (auto simp: ClearAll_def split: if_splits)
  from s2 have k2: "recon_runs db2 = recon_runs db1"
    by (auto simp: MatchSettlements_def split: sum.splits prod.splits dest: m)
  from s3 have k3: "recon_runs db3 = recon_runs db2"
    by (auto simp: DetectMissingSettlements_def Let_def
             split: sum.splits prod.splits if_splits dest: BulkInsert_others)
  from s4 have k4: "recon_runs db4 = recon_runs db3"
    by (auto simp: DetectAmountMismatches_def Let_def
             split: sum.splits prod.splits if_splits dest: BulkInsert_others)
  from s5 have k5: "recon_runs db5 = recon_runs db4"
    by (auto simp: DetectOrphanedSettlements_def Let_def
             split: sum.splits prod.splits if_splits dest: BulkInsert_others)
  from assms s1 s2 s3 s4 s5 have "db' = db1 \<or> db' = db2 \<or> db' = db3 \<or> db' = db4 \<or> db' = db5"
    by (auto simp: RunFullReconciliation_def split: sum.splits)
  with k1 k2 k3 k4 k5 show ?thesis by auto
qed

text \<open>
  With a stored report of the same digest, and the digest lookup answering,
  \<open>IngestReport\<close> returns the sentinel and the database as it was, whatever the
  processor, the format tag, the clock and the other database calls.
\<close>

lemma ingest_sentinel:
  assumes "rpt \<in> set (settlement_reports db)"
    and "rpt_FileHash rpt = sha256hex L data"
    and "\<not> F CallReportExistsByHash"
  shows "IngestReport L F window now data processor format db
         = (Inr \<lparr>ReportID = ''already-ingested'', RecordsIngested = 0,
                 DuplicatesSkipped = 0, DiscrepanciesDetected = 0\<rparr>, db)"
proof -
  from assms(1,2) have "filter (\<lambda>r. rpt_FileHash r = sha256hex L data) (settlement_reports db) \<noteq> []"
    by (auto simp: filter_empty_conv)
  with assms(3) have "ReportExistsByHash F db (sha256hex L data) = Inr True"
    by (simp add: ReportExistsByHash_def)
  then show ?thesis by (simp add: IngestReport_def)
qed

text \<open>A successful ingestion leaves a report row with the digest of its input.\<close>

lemma ingest_success_report:
  assumes "IngestReport L F window now data processor format db = (Inr res, db1)"
  shows "\<exists>rpt \<in> set (settlement_reports db1). rpt_FileHash rpt = sha256hex L data"
proof (cases "ReportExistsByHash F db (sha256hex L data)")
  case (Inl e)
  with assms show ?thesis by (simp add: IngestReport_def)
next
  case (Inr ex)
  show ?thesis
  proof (cases ex)
    case True
    with Inr assms have "db1 = db" by (simp add: IngestReport_def)
    moreover from True Inr
    have "filter (\<lambda>r. rpt_FileHash r = sha256hex L data) (settlement_reports db) \<noteq> []"
      by (auto simp: ReportExistsByHash_def split: if_splits)
    ultimately show ?thesis by (auto simp: filter_empty_conv)
  next
    case False
    with Inr assms show ?thesis
      by (auto simp: IngestReport_def Let_def InsertReport_def InsertRecords_def
               split: option.splits sum.splits prod.splits if_splits
               dest!: RunFull_reports)
  qed
qed

text \<open>
  C7. When the digest is new, the parser chosen by the format tag returns its records,
  the report row and the records are stored, and the full reconciliation run then fails,
  \<open>IngestReport\<close> still returns a result: the report id, \<open>records_ingested\<close> the
  number of records the insert added to the table, \<open>duplicates_skipped\<close> the number
  parsed minus that, and \<open>discrepancies_detected = 0\<close>.
\<close>

theorem ingest_survives_failed_reconciliation:
  assumes fresh: "ReportExistsByHash F db (sha256hex L data) = Inr False"
    and parsed: "dispatch L format data (''RPT-'' @ processor @ ''-'' @ itoa now) = Some (Inr (records, batch))"
    and rep: "InsertReport F
        \<lparr>rpt_ID = ''RPT-'' @ processor @ ''-'' @ itoa now, rpt_Processor = processor,
         rpt_ReportDate = now,
         rpt_BatchID = (if batch = [] then ''BATCH-'' @ itoa now else batch),
         rpt_FileHash = sha256hex L data, rpt_RecordCount = length records,
         rpt_IngestedAt = now\<rparr> db
       = (Inr (), db1)"
    and recs: "InsertRecords F records db1 = (Inr inserted, db2)"
    and recon: "RunFullReconciliation F window now db2 = (Inl e, db3)"
  shows "IngestReport L F window now data processor format db
         = (Inr \<lparr>ReportID = ''RPT-'' @ processor @ ''-'' @ itoa now,
                 RecordsIngested = int inserted,
                 DuplicatesSkipped = int (length records) - int inserted,
                 DiscrepanciesDetected = 0\<rparr>, db3)
         \<and> length (settlement_records db2) = length (settlement_records db1) + inserted"
proof -
  from recs have l: "length (settlement_records db2) = length (settlement_records db1) + inserted"
    by (auto simp: InsertRecords_def split: if_splits prod.splits dest: insertOrIgnore_length)
  from fresh parsed rep recs recon
  have "IngestReport L F window now data processor format db
         = (Inr \<lparr>ReportID = ''RPT-'' @ processor @ ''-'' @ itoa now,
                 RecordsIngested = int inserted,
                 DuplicatesSkipped = int (length records) - int inserted,
                 DiscrepanciesDetected = 0\<rparr>, db3)"
    by (simp add: IngestReport_def Let_def)
  with l show ?thesis by (rule conjI[rotated])
qed

theorem ingest_survives_failed_reconciliation_witness:
  "ReportExistsByHash failClear exampleDB (sha256hex plainLib exampleCSV) = Inr False
   \<and> dispatch plainLib ''csv_a'' exampleCSV (''RPT-'' @ ''afripay'' @ ''-'' @ itoa exampleNow) = Some (Inr (exampleParsed, ''BATCH-AP-1''))
   \<and> InsertReport failClear
        \<lparr>rpt_ID = ''RPT-'' @ ''afripay'' @ ''-'' @ itoa exampleNow, rpt_Processor = ''afripay'',
         rpt_ReportDate = exampleNow,
         rpt_BatchID = (if ''BATCH-AP-1'' = [] then ''BATCH-'' @ itoa exampleNow else ''BATCH-AP-1''),
         rpt_FileHash = sha256hex plainLib exampleCSV, rpt_RecordCount = length exampleParsed,
         rpt_IngestedAt = exampleNow\<rparr> exampleDB
       = (Inr (), (exampleDB\<lparr>settlement_reports := [exampleReport]\<rparr>))
   \<and> InsertRecords failClear exampleParsed (exampleDB\<lparr>settlement_reports := [exampleReport]\<rparr>) = (Inr 2, exampleStored)
   \<and> RunFullReconciliation failClear None exampleNow exampleStored = (Inl (Wrap ''clear discrepancies'' (StoreError CallClearAll)), (exampleStored\<lparr>recon_runs := 1\<rparr>))
   \<and> IngestReport plainLib failClear None exampleNow exampleCSV ''afripay'' ''csv_a'' exampleDB
         = (Inr \<lparr>ReportID = ''RPT-'' @ ''afripay'' @ ''-'' @ itoa exampleNow,
                 RecordsIngested = int 2,
                 DuplicatesSkipped = int (length exampleParsed) - int 2,
                 DiscrepanciesDetected = 0\<rparr>, (exampleStored\<lparr>recon_runs := 1\<rparr>))
   \<and> length (settlement_records exampleStored) = length (settlement_records (exampleDB\<lparr>settlement_reports := [exampleReport]\<rparr>)) + 2"
proof -
  have h1: "ReportExistsByHash failClear exampleDB (sha256hex plainLib exampleCSV) = Inr False"
    by code_simp
  have h2: "dispatch plainLib ''csv_a'' exampleCSV (''RPT-'' @ ''afripay'' @ ''-'' @ itoa exampleNow) = Some (Inr (exampleParsed, ''BATCH-AP-1''))"
    by code_simp
  have h3: "InsertReport failClear
        \<lparr>rpt_ID = ''RPT-'' @ ''afripay'' @ ''-'' @ itoa exampleNow, rpt_Processor = ''afripay'',
         rpt_ReportDate = exampleNow,
         rpt_BatchID = (if ''BATCH-AP-1'' = [] then ''BATCH-'' @ itoa exampleNow else ''BATCH-AP-1''),
         rpt_FileHash = sha256hex plainLib exampleCSV, rpt_RecordCount = length exampleParsed,
         rpt_IngestedAt = exampleNow\<rparr> exampleDB
       = (Inr (), (exampleDB\<lparr>settlement_reports := [exampleReport]\<rparr>))"
    by code_simp
  have h4: "InsertRecords failClear exampleParsed (exampleDB\<lparr>settlement_reports := [exampleReport]\<rparr>) = (Inr 2, exampleStored)"
    by code_simp
  have h5: "RunFullReconciliation failClear None exampleNow exampleStored = (Inl (Wrap ''clear discrepancies'' (StoreError CallClearAll)), (exampleStored\<lparr>recon_runs := 1\<rparr>))"
    by code_simp
  note c = ingest_survives_failed_reconciliation[OF h1 h2 h3 h4 h5]
  from h1 h2 h3 h4 h5 c show ?thesis by (intro conjI) (erule conjunct1 conjunct2 | assumption)+
qed

text \<open>
  C4. After an ingestion of the bytes \<open>data\<close> has returned a result, a report row with
  the digest of \<open>data\<close> is stored; and on every later database that still holds the
  report rows, a call of \<open>IngestReport\<close> with the same bytes, whose digest lookup
  answers, returns the sentinel id \<open>already-ingested\<close> with zero records ingested, and
  the database exactly as it was: no report, no record, and no reconciliation run
  (\<open>recon_runs\<close> is unchanged).
\<close>

theorem ingest_idempotent:
  assumes first: "IngestReport L F window now data processor format db = (Inr res, db1)"
    and later: "set (settlement_reports db1) \<subseteq> set (settlement_reports db2)"
    and ok: "\<not> F' CallReportExistsByHash"
  shows "(\<exists>rpt \<in> set (settlement_reports db1). rpt_FileHash rpt = sha256hex L data)
         \<and> IngestReport L F' window' now' data processor' format' db2
           = (Inr \<lparr>ReportID = ''already-ingested'', RecordsIngested = 0,
                 DuplicatesSkipped = 0, DiscrepanciesDetected = 0\<rparr>, db2)"
proof -
  from ingest_success_report[OF first]
  have a: "\<exists>rpt \<in> set (settlement_reports db1). rpt_FileHash rpt = sha256hex L data" .
  then obtain rpt where "rpt \<in> set (settlement_reports db1)"
    and h: "rpt_FileHash rpt = sha256hex L data" by blast
  with later have "rpt \<in> set (settlement_reports db2)" by blast
  from ingest_sentinel[where F="F'", OF this h ok] a show ?thesis by (rule conjI[rotated])
qed

theorem ingest_idempotent_witness:
  "IngestReport plainLib noFaults None exampleNow exampleCSV ''afripay'' ''csv_a'' exampleDB = (Inr \<lparr>ReportID = ''RPT-afripay-1705536000000000000'', RecordsIngested = 2,
            DuplicatesSkipped = 0, DiscrepanciesDetected = 3\<rparr>, exampleIngested)
   \<and> \<not> noFaults CallReportExistsByHash
   \<and> IngestReport plainLib noFaults None (exampleNow + 60000000000) exampleCSV ''afripay'' ''csv_a'' exampleIngested
           = (Inr \<lparr>ReportID = ''already-ingested'', RecordsIngested = 0,
                 DuplicatesSkipped = 0, DiscrepanciesDetected = 0\<rparr>, exampleIngested)
   \<and> recon_runs exampleIngested = 1"
proof -
  have h1: "IngestReport plainLib noFaults None exampleNow exampleCSV ''afripay'' ''csv_a'' exampleDB = (Inr \<lparr>ReportID = ''RPT-afripay-1705536000000000000'', RecordsIngested = 2,
            DuplicatesSkipped = 0, DiscrepanciesDetected = 3\<rparr>, exampleIngested)"
    by code_simp
  have h2: "set (settlement_reports exampleIngested) \<subseteq> set (settlement_reports exampleIngested)"
    by simp
  have h3: "\<not> noFaults CallReportExistsByHash"
    by (simp add: noFaults_def)
  have h4: "recon_runs exampleIngested = 1"
    using RunFull_runs by code_simp
  note c = ingest_idempotent[where F'=noFaults, OF h1 h2 h3, THEN conjunct2]
  from h1 h3 c h4 show ?thesis by (intro conjI)
qed

text \<open>
  C10. When a report row with the digest of \<open>data\<close> is stored and the digest lookup
  answers, \<open>IngestReport\<close> returns the sentinel and the database as it was, for every
  format tag (recognized or not) and every \<open>data\<close> (parseable or not): the lookup comes
  before the format switch and before parsing. And whatever database calls fail, the
  call on such a database never returns the unsupported-format error.
\<close>

theorem duplicate_check_precedes_format:
  assumes stored: "rpt \<in> set (settlement_reports db)"
    and digest: "rpt_FileHash rpt = sha256hex L data"
    and ok: "\<not> F CallReportExistsByHash"
  shows "IngestReport L F window now data processor format db
           = (Inr \<lparr>ReportID = ''already-ingested'', RecordsIngested = 0,
                 DuplicatesSkipped = 0, DiscrepanciesDetected = 0\<rparr>, db)
         \<and> (\<forall>F2 x. fst (IngestReport L F2 window now data processor format db)
                    \<noteq> Inl (UnsupportedFormat x))"
proof -
  have b: "\<forall>F2 x. fst (IngestReport L F2 window now data processor format db)
                    \<noteq> Inl (UnsupportedFormat x)"
  proof (intro allI)
    fix F2 x
    show "fst (IngestReport L F2 window now data processor format db)
            \<noteq> Inl (UnsupportedFormat x)"
    proof (cases "F2 CallReportExistsByHash")
      case True
      then show ?thesis by (simp add: IngestReport_def ReportExistsByHash_def)
    next
      case False
      from ingest_sentinel[where F=F2, OF stored digest False] show ?thesis by simp
    qed
  qed
  from ingest_sentinel[where F=F, OF stored digest ok] b show ?thesis by (rule conjI)
qed

theorem duplicate_check_precedes_format_witness:
  "exampleReport \<in> set (settlement_reports exampleIngested)
   \<and> rpt_FileHash exampleReport = sha256hex plainLib exampleCSV
   \<and> \<not> noFaults CallReportExistsByHash
   \<and> IngestReport plainLib noFaults None exampleNow exampleCSV ''afripay'' ''xml_z'' exampleIngested
           = (Inr \<lparr>ReportID = ''already-ingested'', RecordsIngested = 0,
                 DuplicatesSkipped = 0, DiscrepanciesDetected = 0\<rparr>, exampleIngested)
   \<and> fst (IngestReport plainLib noFaults None exampleNow exampleCSV ''afripay'' ''xml_z'' exampleDB)
       = Inl (UnsupportedFormat ''xml_z'')"
proof -
  have h1: "exampleReport \<in> set (settlement_reports exampleIngested)"
    by code_simp
  have h2: "rpt_FileHash exampleReport = sha256hex plainLib exampleCSV"
    by code_simp
  have h3: "\<not> noFaults CallReportExistsByHash"
    by (simp add: noFaults_def)
  have h4: "fst (IngestReport plainLib noFaults None exampleNow exampleCSV ''afripay'' ''xml_z'' exampleDB)
       = Inl (UnsupportedFormat ''xml_z'')"
    by code_simp
  note c = duplicate_check_precedes_format[where F=noFaults, OF h1 h2 h3, THEN conjunct1]
  from h1 h2 h3 c h4 show ?thesis by (intro conjI)
qed

end
